theory Spec2Isabelle
  imports Complex_Main
begin

section \<open>Python values, exceptions and results\<close>

text \<open>
  The values that travel through the agents: JSON-like data. A Python \<open>dict\<close> with string
  keys is an association list in insertion order (\<open>PyDict\<close>); a \<open>float\<close> is idealised as a
  real number (binary rounding is not modelled). Strings are lists of \<open>char\<close>; the model
  reads them as ASCII text, which is where \<open>str.lower\<close>, \<open>str.isdigit\<close>, \<open>str.strip\<close> and the
  regular-expression classes \<open>\d\<close> and \<open>\s\<close> are the functions below.
\<close>

datatype pyval =
    PyNone
  | PyBool bool
  | PyInt int
  | PyFloat real
  | PyStr string
  | PyList "pyval list"
  | PyDict "(string \<times> pyval) list"

type_synonym pydict = "(string \<times> pyval) list"

text \<open>
  What can be raised, each with the text that \<open>str(e)\<close> gives. \<open>KeyError k\<close> carries the
  missing key; \<open>str\<close> of it is the key's \<open>repr\<close>, the key between single quotes for the plain
  identifiers used as argument names here. \<open>OtherError\<close> is any other instance of
  \<open>Exception\<close>. \<open>BaseError\<close> is an instance of \<open>BaseException\<close> that is not an \<open>Exception\<close>
  (\<open>asyncio.CancelledError\<close>, \<open>KeyboardInterrupt\<close>, \<open>SystemExit\<close>): a handler
  \<open>except Exception\<close> does not catch it.
\<close>

datatype pyexn =
    KeyError string
  | TypeError string
  | ValueError string
  | OtherError string
  | BaseError string

fun str_exn :: "pyexn \<Rightarrow> string" where
  "str_exn (KeyError k) = [CHR 0x27] @ k @ [CHR 0x27]"
| "str_exn (TypeError m) = m"
| "str_exn (ValueError m) = m"
| "str_exn (OtherError m) = m"
| "str_exn (BaseError m) = m"

text \<open>\<open>isinstance(e, Exception)\<close>\<close>

fun is_exception :: "pyexn \<Rightarrow> bool" where
  "is_exception (BaseError m) = False"
| "is_exception e = True"

text \<open>Sequencing of computations that may raise: the first exception wins.\<close>

fun and_then :: "pyexn + 'a \<Rightarrow> ('a \<Rightarrow> pyexn + 'b) \<Rightarrow> pyexn + 'b" where
  "and_then (Inl e) f = Inl e"
| "and_then (Inr v) f = f v"

section \<open>String operations\<close>

definition is_digit :: "char \<Rightarrow> bool" where
  "is_digit c = (c \<in> set ''0123456789'')"

definition is_space :: "char \<Rightarrow> bool" where
  "is_space c = (c \<in> set [CHR 0x09, CHR 0x0A, CHR 0x0B, CHR 0x0C, CHR 0x0D,
                           CHR 0x1C, CHR 0x1D, CHR 0x1E, CHR 0x1F, CHR 0x20])"

definition lower_char :: "char \<Rightarrow> char" where
  "lower_char c =
     (case map_of (zip ''ABCDEFGHIJKLMNOPQRSTUVWXYZ'' ''abcdefghijklmnopqrstuvwxyz'') c of
        Some d \<Rightarrow> d
      | None \<Rightarrow> c)"

definition lower :: "string \<Rightarrow> string" where
  "lower s = map lower_char s"

fun startswith :: "string \<Rightarrow> string \<Rightarrow> bool" where
  "startswith s [] = True"
| "startswith [] (p # ps) = False"
| "startswith (c # cs) (p # ps) = (c = p \<and> startswith cs ps)"

text \<open>\<open>py_in sub s\<close> is Python's \<open>sub in s\<close> on strings.\<close>

fun py_in :: "string \<Rightarrow> string \<Rightarrow> bool" where
  "py_in sub [] = (sub = [])"
| "py_in sub (c # cs) = (startswith (c # cs) sub \<or> py_in sub cs)"

text \<open>\<open>s.index(sub)\<close>: the first position where \<open>sub\<close> starts; \<open>ValueError\<close> when there is none.\<close>

fun py_index :: "string \<Rightarrow> string \<Rightarrow> pyexn + nat" where
  "py_index [] sub = (if sub = [] then Inr 0 else Inl (ValueError ''substring not found''))"
| "py_index (c # cs) sub =
     (if startswith (c # cs) sub then Inr 0
      else and_then (py_index cs sub) (\<lambda>i. Inr (Suc i)))"

definition strip :: "string \<Rightarrow> string" where
  "strip s = rev (dropWhile is_space (rev (dropWhile is_space s)))"

section \<open>Number conversions\<close>

definition digit_val :: "char \<Rightarrow> nat" where
  "digit_val c = of_char c - 48"

definition dec_val :: "string \<Rightarrow> nat" where
  "dec_val ds = foldl (\<lambda>a c. 10 * a + digit_val c) 0 ds"

text \<open>
  \<open>float(s)\<close> on the decimal texts without exponent: an optional minus sign, digits, and an
  optional point followed by digits, with at least one digit in all. Python's \<open>float\<close> also
  reads surrounding blanks, exponents, underscores, \<open>inf\<close> and \<open>nan\<close>; no pattern of this
  program produces one of those, and the model has them in the \<open>ValueError\<close> branch with
  the texts that Python rejects.
\<close>

definition unsigned_decimal :: "string \<Rightarrow> real option" where
  "unsigned_decimal s =
     (let ip = takeWhile is_digit s;
          r = dropWhile is_digit s;
          fp = (case r of [] \<Rightarrow> Some [] | c # t \<Rightarrow> if c = CHR ''.'' then Some t else None)
      in case fp of
           None \<Rightarrow> None
         | Some ds \<Rightarrow>
             if list_all is_digit ds \<and> ip @ ds \<noteq> []
             then Some (real (dec_val (ip @ ds)) / 10 ^ length ds)
             else None)"

definition py_float :: "string \<Rightarrow> pyexn + real" where
  "py_float s =
     (let neg = (case s of c # t \<Rightarrow> c = CHR ''-'' | [] \<Rightarrow> False)
      in case unsigned_decimal (if neg then tl s else s) of
           Some x \<Rightarrow> Inr (if neg then - x else x)
         | None \<Rightarrow> Inl (ValueError (''could not convert string to float: '' @ s)))"

text \<open>The decimal text of a natural number.\<close>

function str_nat :: "nat \<Rightarrow> string" where
  "str_nat n =
     (if n < 10 then [''0123456789'' ! n]
      else str_nat (n div 10) @ [''0123456789'' ! (n mod 10)])"
  by pat_completeness auto
termination
  by (relation "measure id") auto

declare str_nat.simps [simp del]

text \<open>
  \<open>int(s)\<close> on texts of decimal digits. The interpreter converts at most
  \<open>sys.get_int_max_str_digits()\<close> digits, 4300 unless it is configured otherwise; on a longer
  text \<open>int\<close> raises \<open>ValueError\<close>.
\<close>

definition int_max_str_digits :: nat where
  "int_max_str_digits = 4300"

definition int_limit_message :: "nat \<Rightarrow> string" where
  "int_limit_message n =
     ''Exceeds the limit (4300 digits) for integer string conversion: value has ''
     @ str_nat n @ '' digits; use sys.set_int_max_str_digits() to increase the limit''"

definition py_int :: "string \<Rightarrow> pyexn + int" where
  "py_int s =
     (if s \<noteq> [] \<and> list_all is_digit s then
        (if int_max_str_digits < length s
         then Inl (ValueError (int_limit_message (length s)))
         else Inr (int (dec_val s)))
      else Inl (ValueError (''invalid literal for int() with base 10: '' @ s)))"

section \<open>Regular expressions\<close>

text \<open>
  The four patterns of the program are sequences of single-character classes, each with a
  repetition range, greedy or lazy, and each inside at most one capture group. A pattern
  is a list of such items; \<open>grp\<close> is the number of the group the item lies in (0 for none).
  The matcher is the backtracking search of Python's \<open>re\<close>: a greedy item tries the longest
  run first and gives characters back one at a time, a lazy item starts from the shortest.
\<close>

datatype quant = Greedy | Lazy

record item =
  cls :: "char \<Rightarrow> bool"
  lo :: nat
  hi :: "nat option"
  mode :: quant
  grp :: nat

definition candidates :: "item \<Rightarrow> string \<Rightarrow> nat list" where
  "candidates it s =
     (let m = length (takeWhile (cls it) s);
          m' = (case hi it of None \<Rightarrow> m | Some h \<Rightarrow> min h m)
      in if m' < lo it then []
         else (case mode it of Greedy \<Rightarrow> rev [lo it ..< Suc m'] | Lazy \<Rightarrow> [lo it ..< Suc m']))"

fun first_some :: "('a \<Rightarrow> 'b option) \<Rightarrow> 'a list \<Rightarrow> 'b option" where
  "first_some f [] = None"
| "first_some f (x # xs) = (case f x of Some y \<Rightarrow> Some y | None \<Rightarrow> first_some f xs)"

text \<open>
  \<open>match_items its s\<close> matches the pattern at the start of \<open>s\<close>: the text each item took, and
  the text left after the match.
\<close>

fun match_items :: "item list \<Rightarrow> string \<Rightarrow> (string list \<times> string) option" where
  "match_items [] s = Some ([], s)"
| "match_items (it # its) s =
     first_some
       (\<lambda>k. case match_items its (drop k s) of
               None \<Rightarrow> None
             | Some (ps, r) \<Rightarrow> Some (take k s # ps, r))
       (candidates it s)"

text \<open>\<open>match.group(g)\<close>: the text taken by the items of group \<open>g\<close>.\<close>

definition group :: "nat \<Rightarrow> item list \<Rightarrow> string list \<Rightarrow> string" where
  "group g its ps = concat (map snd (filter (\<lambda>(it, p). grp it = g) (zip its ps)))"

text \<open>\<open>re.search\<close>: the match at the leftmost position that has one.\<close>

fun re_search :: "item list \<Rightarrow> string \<Rightarrow> string list option" where
  "re_search its [] = map_option fst (match_items its [])"
| "re_search its (c # cs) =
     (case match_items its (c # cs) of
        Some (ps, r) \<Rightarrow> Some ps
      | None \<Rightarrow> re_search its cs)"

definition lit :: "string \<Rightarrow> item list" where
  "lit s = map (\<lambda>c. \<lparr>cls = (\<lambda>x. x = c), lo = 1, hi = Some 1, mode = Greedy, grp = 0\<rparr>) s"

definition rep :: "(char \<Rightarrow> bool) \<Rightarrow> nat \<Rightarrow> nat option \<Rightarrow> quant \<Rightarrow> nat \<Rightarrow> item" where
  "rep c l h q g = \<lparr>cls = c, lo = l, hi = h, mode = q, grp = g\<rparr>"

text \<open>\<open>-?\d+\.?\d*\<close> as group \<open>g\<close>.\<close>

definition number_items :: "nat \<Rightarrow> item list" where
  "number_items g =
     [rep (\<lambda>c. c = CHR ''-'') 0 (Some 1) Greedy g,
      rep is_digit 1 None Greedy g,
      rep (\<lambda>c. c = CHR ''.'') 0 (Some 1) Greedy g,
      rep is_digit 0 None Greedy g]"

text \<open>\<open>(-?\d+\.?\d*)\s*[,]\s*(-?\d+\.?\d*)\<close>\<close>

definition coord_pattern :: "item list" where
  "coord_pattern =
     number_items 1
     @ [rep is_space 0 None Greedy 0, rep (\<lambda>c. c = CHR '','') 1 (Some 1) Greedy 0,
        rep is_space 0 None Greedy 0]
     @ number_items 2"


text \<open>A match takes at least the least number of characters each item asks for.\<close>

lemma first_some_SomeD:
  "first_some f xs = Some y \<Longrightarrow> \<exists>x \<in> set xs. f x = Some y"
  by (induction xs) (auto split: option.splits)

lemma candidates_bounds:
  "k \<in> set (candidates it s) \<Longrightarrow> lo it \<le> k \<and> k \<le> length (takeWhile (cls it) s)"
  by (auto simp: candidates_def Let_def split: if_splits option.splits quant.splits)

lemma candidates_le_length:
  "k \<in> set (candidates it s) \<Longrightarrow> k \<le> length s"
  using candidates_bounds [of k it s] length_takeWhile_le [of "cls it" s] by linarith

lemma match_items_length:
  "match_items its s = Some (ps, r) \<Longrightarrow> length r + sum_list (map lo its) \<le> length s"
proof (induction its arbitrary: s ps r)
  case Nil
  then show ?case by simp
next
  case (Cons it its)
  from Cons.prems obtain k where k: "k \<in> set (candidates it s)"
    and m: "(case match_items its (drop k s) of None \<Rightarrow> None
             | Some (qs, r') \<Rightarrow> Some (take k s # qs, r')) = Some (ps, r)"
    by (auto dest!: first_some_SomeD)
  from m obtain qs where "match_items its (drop k s) = Some (qs, r)"
    by (auto split: option.splits)
  then have "length r + sum_list (map lo its) \<le> length (drop k s)"
    by (rule Cons.IH)
  moreover have "lo it \<le> k" "k \<le> length s"
    using k candidates_bounds candidates_le_length by blast+
  ultimately show ?case by simp
qed

lemma coord_match_shorter:
  "match_items coord_pattern s = Some (ps, r) \<Longrightarrow> length r < length s"
  by (drule match_items_length) (simp add: coord_pattern_def number_items_def rep_def)

text \<open>
  \<open>re.findall(coord_pattern, s)\<close>: the matches from left to right, each search starting where
  the match before it ended; one pair of group texts for each match. (A match of this
  pattern is never empty.)
\<close>

function findall_coords :: "string \<Rightarrow> (string \<times> string) list" where
  "findall_coords s =
     (case match_items coord_pattern s of
        Some (ps, r) \<Rightarrow>
          (group 1 coord_pattern ps, group 2 coord_pattern ps) # findall_coords r
      | None \<Rightarrow> (case s of [] \<Rightarrow> [] | c # cs \<Rightarrow> findall_coords cs))"
  by pat_completeness auto
termination
  by (relation "measure length") (auto dest: coord_match_shorter)

declare findall_coords.simps [simp del]

text \<open>\<open>tile[_\s]*(\d+)[,\s]+(\d+)[,\s]+zoom[_\s]*(\d+)\<close>\<close>

definition tile_pattern :: "item list" where
  "tile_pattern =
     lit ''tile''
     @ [rep (\<lambda>c. c = CHR ''_'' \<or> is_space c) 0 None Greedy 0,
        rep is_digit 1 None Greedy 1,
        rep (\<lambda>c. c = CHR '','' \<or> is_space c) 1 None Greedy 0,
        rep is_digit 1 None Greedy 2,
        rep (\<lambda>c. c = CHR '','' \<or> is_space c) 1 None Greedy 0]
     @ lit ''zoom''
     @ [rep (\<lambda>c. c = CHR ''_'' \<or> is_space c) 0 None Greedy 0,
        rep is_digit 1 None Greedy 3]"

text \<open>\<open>from\s+(.+?)\s+to\s+(.+)\<close>; the dot is any character but the newline.\<close>

definition from_to_pattern :: "item list" where
  "from_to_pattern =
     lit ''from''
     @ [rep is_space 1 None Greedy 0,
        rep (\<lambda>c. c \<noteq> CHR 0x0A) 1 None Lazy 1,
        rep is_space 1 None Greedy 0]
     @ lit ''to''
     @ [rep is_space 1 None Greedy 0,
        rep (\<lambda>c. c \<noteq> CHR 0x0A) 1 None Greedy 2]"

section \<open>The argument extractors of \<open>AssistantAgent\<close>\<close>

fun extract_address_loop :: "string list \<Rightarrow> string \<Rightarrow> string" where
  "extract_address_loop [] query = strip query"
| "extract_address_loop (prefix # prefixes) query =
     (if startswith (lower query) prefix then strip (drop (length prefix) query)
      else extract_address_loop prefixes query)"

definition extract_address :: "string \<Rightarrow> string" where
  "extract_address query =
     extract_address_loop
       [''find'', ''geocode'', ''where is'', ''address of'', ''coordinates of''] query"

fun extract_location_loop :: "string list \<Rightarrow> string \<Rightarrow> pyexn + string" where
  "extract_location_loop [] query = Inr (strip query)"
| "extract_location_loop (prefix # prefixes) query =
     (if py_in prefix (lower query)
      then and_then (py_index (lower query) prefix)
             (\<lambda>idx. Inr (strip (drop (idx + length prefix) query)))
      else extract_location_loop prefixes query)"

definition extract_location :: "string \<Rightarrow> pyexn + string" where
  "extract_location query =
     extract_location_loop
       [''weather in'', ''weather at'', ''temperature in'', ''temperature at''] query"

definition default_lat :: real where
  "default_lat = 338938 / 10000"

definition default_lon :: real where
  "default_lon = 355018 / 10000"

definition extract_coords :: "string \<Rightarrow> pyexn + pydict" where
  "extract_coords query =
     (case re_search coord_pattern query of
        Some ps \<Rightarrow>
          and_then (py_float (group 1 coord_pattern ps)) (\<lambda>lat.
          and_then (py_float (group 2 coord_pattern ps)) (\<lambda>lon.
          Inr [(''lat'', PyFloat lat), (''lon'', PyFloat lon)]))
      | None \<Rightarrow> Inr [(''lat'', PyFloat default_lat), (''lon'', PyFloat default_lon)])"

text \<open>\<open>d[k]\<close> on a dictionary: \<open>KeyError\<close> when the key is absent.\<close>

definition getitem :: "pydict \<Rightarrow> string \<Rightarrow> pyexn + pyval" where
  "getitem d k = (case map_of d k of Some v \<Rightarrow> Inr v | None \<Rightarrow> Inl (KeyError k))"

fun poi_type_loop :: "string list \<Rightarrow> string \<Rightarrow> string option" where
  "poi_type_loop [] query = None"
| "poi_type_loop (poi_type # poi_types) query =
     (if py_in poi_type (lower query) then Some poi_type else poi_type_loop poi_types query)"

definition extract_location_for_poi :: "string \<Rightarrow> pyexn + pydict" where
  "extract_location_for_poi query =
     and_then (extract_location query) (\<lambda>location.
     and_then (extract_coords query) (\<lambda>coords.
     let query_type =
           poi_type_loop [''cafe'', ''restaurant'', ''park'', ''hotel'', ''museum'', ''hospital'']
             query
     in and_then (getitem coords ''lat'') (\<lambda>lat.
        and_then (getitem coords ''lon'') (\<lambda>lon.
        Inr [(''query'', PyStr (case query_type of Some t \<Rightarrow> if t = [] then ''place'' else t
                                 | None \<Rightarrow> ''place'')),
             (''lat'', lat), (''lon'', lon)]))))"

definition extract_two_locations :: "string \<Rightarrow> pydict" where
  "extract_two_locations query =
     (case re_search from_to_pattern (lower query) of
        Some ps \<Rightarrow>
          [(''start'', PyStr (strip (group 1 from_to_pattern ps))),
           (''end'', PyStr (strip (group 2 from_to_pattern ps)))]
      | None \<Rightarrow> [(''start'', PyStr ''Beirut''), (''end'', PyStr ''Tripoli'')])"

text \<open>The text is not read: the two default places, Beirut and Tripoli.\<close>

definition extract_two_coords :: "string \<Rightarrow> pydict" where
  "extract_two_coords query =
     [(''start_lat'', PyFloat default_lat), (''start_lon'', PyFloat default_lon),
      (''end_lat'', PyFloat (344344 / 10000)), (''end_lon'', PyFloat (358444 / 10000))]"

definition extract_tile_info :: "string \<Rightarrow> pyexn + pydict" where
  "extract_tile_info query =
     (case re_search tile_pattern (lower query) of
        Some ps \<Rightarrow>
          and_then (py_int (group 1 tile_pattern ps)) (\<lambda>x.
          and_then (py_int (group 2 tile_pattern ps)) (\<lambda>y.
          and_then (py_int (group 3 tile_pattern ps)) (\<lambda>z.
          Inr [(''tile_x'', PyInt x), (''tile_y'', PyInt y), (''zoom'', PyInt z)])))
      | None \<Rightarrow> Inr [(''tile_x'', PyInt 10), (''tile_y'', PyInt 7), (''zoom'', PyInt 5)])"

section \<open>The deterministic router\<close>

text \<open>\<open>any(word in text for word in words)\<close>\<close>

definition any_in :: "string list \<Rightarrow> string \<Rightarrow> bool" where
  "any_in words text = list_ex (\<lambda>word. py_in word text) words"

definition geo_words :: "string list" where
  "geo_words = [''geocode'', ''address to'', ''coordinates of'', ''where is'']"

definition poi_words :: "string list" where
  "poi_words = [''find'', ''search'', ''near'', ''poi'', ''cafe'', ''restaurant'', ''park'']"

definition routing_words :: "string list" where
  "routing_words = [''route'', ''directions'', ''how to get'', ''navigate'', ''distance'']"

definition weather_words :: "string list" where
  "weather_words = [''weather'', ''temperature'', ''forecast'']"

type_synonym decision = "string \<times> string \<times> pydict"

definition route_query :: "string \<Rightarrow> pyexn + decision" where
  "route_query query =
     (let query_lower = lower query in
      if any_in geo_words query_lower then
        (if py_in ''reverse'' query_lower \<or> py_in ''coordinates to address'' query_lower
         then and_then (extract_coords query) (\<lambda>coords. Inr (''geo'', ''reverse_geocode'', coords))
         else Inr (''geo'', ''geocode'', [(''address'', PyStr (extract_address query))]))
      else if any_in poi_words query_lower then
        and_then (extract_location_for_poi query) (\<lambda>location.
          Inr (''geo'', ''search_poi'', location))
      else if any_in routing_words query_lower then
        (if py_in ''fastest'' query_lower \<or> py_in ''quickest'' query_lower
         then Inr (''routing'', ''fastest_route'', extract_two_locations query)
         else if py_in ''distance'' query_lower then
           (case findall_coords query of
              (a, b) # (c, d) # others \<Rightarrow>
                and_then (py_float a) (\<lambda>start_lat.
                and_then (py_float b) (\<lambda>start_lon.
                and_then (py_float c) (\<lambda>end_lat.
                and_then (py_float d) (\<lambda>end_lon.
                Inr (''routing'', ''get_distance'',
                     [(''start_lat'', PyFloat start_lat), (''start_lon'', PyFloat start_lon),
                      (''end_lat'', PyFloat end_lat), (''end_lon'', PyFloat end_lon)])))))
            | _ \<Rightarrow> Inr (''routing'', ''get_distance'', extract_two_coords query))
         else Inr (''routing'', ''get_route'', extract_two_coords query))
      else if any_in weather_words query_lower then
        (if py_in ''overlay'' query_lower \<or> py_in ''tile'' query_lower
         then and_then (extract_tile_info query) (\<lambda>tile_info.
                Inr (''weather'', ''weather_overlay'', tile_info))
         else if list_ex is_digit query \<and> py_in '','' query
         then and_then (extract_coords query) (\<lambda>coords.
                Inr (''weather'', ''get_temperature'', coords))
         else and_then (extract_location query) (\<lambda>location.
                Inr (''weather'', ''get_weather'', [(''location'', PyStr location)])))
      else Inr (''geo'', ''geocode'', [(''address'', PyStr query)]))"

section \<open>Conversation messages and the outside world\<close>

text \<open>
  A tool call as the reasoning engine returns it: its identifier, the name of the
  function, and the arguments as JSON text.
\<close>

record tool_call =
  tc_id :: string
  tc_name :: string
  tc_arguments :: string

text \<open>
  The message of a completion: \<open>content\<close> may be \<open>None\<close>; \<open>tool_calls\<close> is the list of pending
  calls, empty when the engine returned none.
\<close>

record llm_message =
  content :: "string option"
  tool_calls :: "tool_call list"

text \<open>
  The entries of the conversation history, one constructor for each \<open>role\<close>. An assistant
  entry holds the content and the tool calls (the key is absent when the list is empty);
  a tool entry holds \<open>tool_call_id\<close>, \<open>name\<close> and \<open>content\<close>.
\<close>

datatype message =
    SystemMsg string
  | UserMsg string
  | AssistantMsg "string option" "tool_call list"
  | ToolMsg string string string

text \<open>
  The three servers and the completion endpoint are outside this program. \<open>ext\<close> is their
  state, of any type; a method reads and changes it and returns a payload or raises. The
  two logs are bookkeeping of the model, for counting: \<open>calls\<close> has one entry for each
  invocation of a server method, \<open>queries\<close> one entry for each request to the reasoning
  engine, with the history that was sent and what came back.
\<close>

datatype call = Call string "pyval list"

record 'w world =
  calls :: "call list"
  queries :: "(message list \<times> (pyexn + llm_message)) list"
  ext :: 'w

type_synonym 'w outcome = "(pyexn + pyval) \<times> 'w world"

record 'w servers =
  geo_geocode :: "pyval \<Rightarrow> 'w \<Rightarrow> (pyexn + pyval) \<times> 'w"
  geo_reverse_geocode :: "pyval \<Rightarrow> pyval \<Rightarrow> 'w \<Rightarrow> (pyexn + pyval) \<times> 'w"
  geo_search_poi :: "pyval \<Rightarrow> pyval \<Rightarrow> pyval \<Rightarrow> 'w \<Rightarrow> (pyexn + pyval) \<times> 'w"
  routing_get_route :: "pyval \<Rightarrow> pyval \<Rightarrow> pyval \<Rightarrow> pyval \<Rightarrow> 'w \<Rightarrow> (pyexn + pyval) \<times> 'w"
  routing_get_distance :: "pyval \<Rightarrow> pyval \<Rightarrow> pyval \<Rightarrow> pyval \<Rightarrow> 'w \<Rightarrow> (pyexn + pyval) \<times> 'w"
  routing_fastest_route :: "pyval \<Rightarrow> pyval \<Rightarrow> 'w \<Rightarrow> (pyexn + pyval) \<times> 'w"
  weather_get_weather :: "pyval \<Rightarrow> 'w \<Rightarrow> (pyexn + pyval) \<times> 'w"
  weather_get_temperature :: "pyval \<Rightarrow> pyval \<Rightarrow> 'w \<Rightarrow> (pyexn + pyval) \<times> 'w"
  weather_weather_overlay :: "pyval \<Rightarrow> pyval \<Rightarrow> pyval \<Rightarrow> 'w \<Rightarrow> (pyexn + pyval) \<times> 'w"

text \<open>The call of a server method: it is logged, and runs on the outside state.\<close>

definition invoke ::
  "string \<Rightarrow> pyval list \<Rightarrow> ('w \<Rightarrow> (pyexn + pyval) \<times> 'w) \<Rightarrow> 'w world \<Rightarrow> 'w outcome" where
  "invoke name args m w =
     (case m (ext w) of
        (r, e) \<Rightarrow> (r, w\<lparr>calls := calls w @ [Call name args], ext := e\<rparr>))"

section \<open>The tool dispatchers\<close>

definition quoted :: "string \<Rightarrow> string" where
  "quoted s = [CHR 0x27] @ s @ [CHR 0x27]"

text \<open>
  \<open>arguments[k]\<close> with a string key: a dictionary looks the key up, every other value
  raises \<open>TypeError\<close>.
\<close>

fun subscript :: "pyval \<Rightarrow> string \<Rightarrow> pyexn + pyval" where
  "subscript (PyDict d) k = getitem d k"
| "subscript (PyList xs) k =
     Inl (TypeError ''list indices must be integers or slices, not str'')"
| "subscript (PyStr s) k =
     Inl (TypeError (''string indices must be integers, not '' @ quoted ''str''))"
| "subscript PyNone k = Inl (TypeError (quoted ''NoneType'' @ '' object is not subscriptable''))"
| "subscript (PyBool b) k = Inl (TypeError (quoted ''bool'' @ '' object is not subscriptable''))"
| "subscript (PyInt i) k = Inl (TypeError (quoted ''int'' @ '' object is not subscriptable''))"
| "subscript (PyFloat x) k = Inl (TypeError (quoted ''float'' @ '' object is not subscriptable''))"

text \<open>
  The arguments of a call are evaluated from left to right before the method is entered:
  the first subscript that raises ends the evaluation.
\<close>

definition with_arg ::
  "pyval \<Rightarrow> string \<Rightarrow> (pyval \<Rightarrow> 'w world \<Rightarrow> 'w outcome) \<Rightarrow> 'w world \<Rightarrow> 'w outcome" where
  "with_arg arguments k f w =
     (case subscript arguments k of Inl e \<Rightarrow> (Inl e, w) | Inr v \<Rightarrow> f v w)"

text \<open>
  \<open>try: ... except Exception as e: return {"error": str(e)}\<close>. What is raised and is not an
  \<open>Exception\<close> passes the handler and reaches the caller.
\<close>

definition try_except :: "('w world \<Rightarrow> 'w outcome) \<Rightarrow> 'w world \<Rightarrow> 'w outcome" where
  "try_except body w =
     (case body w of
        (Inl e, w') \<Rightarrow>
          if is_exception e then (Inr (PyDict [(''error'', PyStr (str_exn e))]), w')
          else (Inl e, w')
      | (Inr result, w') \<Rightarrow> (Inr result, w'))"

definition unknown :: "string \<Rightarrow> string \<Rightarrow> 'w world \<Rightarrow> 'w outcome" where
  "unknown what tool_name w = (Inr (PyDict [(''error'', PyStr (what @ tool_name))]), w)"

definition call_geocode :: "('w, 'a) servers_scheme \<Rightarrow> pyval \<Rightarrow> 'w world \<Rightarrow> 'w outcome" where
  "call_geocode sv arguments =
     with_arg arguments ''address'' (\<lambda>a.
       invoke ''_geocode'' [a] (geo_geocode sv a))"

definition call_reverse_geocode ::
  "('w, 'a) servers_scheme \<Rightarrow> pyval \<Rightarrow> 'w world \<Rightarrow> 'w outcome" where
  "call_reverse_geocode sv arguments =
     with_arg arguments ''lat'' (\<lambda>lat.
     with_arg arguments ''lon'' (\<lambda>lon.
       invoke ''_reverse_geocode'' [lat, lon] (geo_reverse_geocode sv lat lon)))"

definition call_search_poi :: "('w, 'a) servers_scheme \<Rightarrow> pyval \<Rightarrow> 'w world \<Rightarrow> 'w outcome" where
  "call_search_poi sv arguments =
     with_arg arguments ''query'' (\<lambda>q.
     with_arg arguments ''lat'' (\<lambda>lat.
     with_arg arguments ''lon'' (\<lambda>lon.
       invoke ''_search_poi'' [q, lat, lon] (geo_search_poi sv q lat lon))))"

definition call_get_route :: "('w, 'a) servers_scheme \<Rightarrow> pyval \<Rightarrow> 'w world \<Rightarrow> 'w outcome" where
  "call_get_route sv arguments =
     with_arg arguments ''start_lat'' (\<lambda>a.
     with_arg arguments ''start_lon'' (\<lambda>b.
     with_arg arguments ''end_lat'' (\<lambda>c.
     with_arg arguments ''end_lon'' (\<lambda>d.
       invoke ''_get_route'' [a, b, c, d] (routing_get_route sv a b c d)))))"

definition call_get_distance :: "('w, 'a) servers_scheme \<Rightarrow> pyval \<Rightarrow> 'w world \<Rightarrow> 'w outcome" where
  "call_get_distance sv arguments =
     with_arg arguments ''start_lat'' (\<lambda>a.
     with_arg arguments ''start_lon'' (\<lambda>b.
     with_arg arguments ''end_lat'' (\<lambda>c.
     with_arg arguments ''end_lon'' (\<lambda>d.
       invoke ''_get_distance'' [a, b, c, d] (routing_get_distance sv a b c d)))))"

definition call_fastest_route ::
  "('w, 'a) servers_scheme \<Rightarrow> pyval \<Rightarrow> 'w world \<Rightarrow> 'w outcome" where
  "call_fastest_route sv arguments =
     with_arg arguments ''start'' (\<lambda>a.
     with_arg arguments ''end'' (\<lambda>b.
       invoke ''_fastest_route'' [a, b] (routing_fastest_route sv a b)))"

definition call_get_weather :: "('w, 'a) servers_scheme \<Rightarrow> pyval \<Rightarrow> 'w world \<Rightarrow> 'w outcome" where
  "call_get_weather sv arguments =
     with_arg arguments ''location'' (\<lambda>a.
       invoke ''_get_weather'' [a] (weather_get_weather sv a))"

definition call_get_temperature ::
  "('w, 'a) servers_scheme \<Rightarrow> pyval \<Rightarrow> 'w world \<Rightarrow> 'w outcome" where
  "call_get_temperature sv arguments =
     with_arg arguments ''lat'' (\<lambda>lat.
     with_arg arguments ''lon'' (\<lambda>lon.
       invoke ''_get_temperature'' [lat, lon] (weather_get_temperature sv lat lon)))"

definition call_weather_overlay ::
  "('w, 'a) servers_scheme \<Rightarrow> pyval \<Rightarrow> 'w world \<Rightarrow> 'w outcome" where
  "call_weather_overlay sv arguments =
     with_arg arguments ''tile_x'' (\<lambda>x.
     with_arg arguments ''tile_y'' (\<lambda>y.
     with_arg arguments ''zoom'' (\<lambda>z.
       invoke ''_weather_overlay'' [x, y, z] (weather_weather_overlay sv x y z))))"

subsection \<open>\<open>AssistantAgent\<close>: one wrapper for each server\<close>

definition call_geo_tool ::
  "('w, 'a) servers_scheme \<Rightarrow> string \<Rightarrow> pyval \<Rightarrow> 'w world \<Rightarrow> 'w outcome" where
  "call_geo_tool sv tool_name arguments =
     try_except
       (if tool_name = ''geocode'' then call_geocode sv arguments
        else if tool_name = ''reverse_geocode'' then call_reverse_geocode sv arguments
        else if tool_name = ''search_poi'' then call_search_poi sv arguments
        else unknown ''Unknown geo tool: '' tool_name)"

definition call_routing_tool ::
  "('w, 'a) servers_scheme \<Rightarrow> string \<Rightarrow> pyval \<Rightarrow> 'w world \<Rightarrow> 'w outcome" where
  "call_routing_tool sv tool_name arguments =
     try_except
       (if tool_name = ''get_route'' then call_get_route sv arguments
        else if tool_name = ''get_distance'' then call_get_distance sv arguments
        else if tool_name = ''fastest_route'' then call_fastest_route sv arguments
        else unknown ''Unknown routing tool: '' tool_name)"

definition call_weather_tool ::
  "('w, 'a) servers_scheme \<Rightarrow> string \<Rightarrow> pyval \<Rightarrow> 'w world \<Rightarrow> 'w outcome" where
  "call_weather_tool sv tool_name arguments =
     try_except
       (if tool_name = ''get_weather'' then call_get_weather sv arguments
        else if tool_name = ''get_temperature'' then call_get_temperature sv arguments
        else if tool_name = ''weather_overlay'' then call_weather_overlay sv arguments
        else unknown ''Unknown weather tool: '' tool_name)"


subsection \<open>\<open>InteractiveAgent\<close>: one dispatcher for the eight tools\<close>

text \<open>
  The agent holds the three servers and the client of the reasoning engine. \<open>json_loads\<close>
  and \<open>json_dumps\<close> are the library's parser and printer: the parser raises on text that is
  not JSON, the printer is total on the payloads.
\<close>

record 'w interactive_agent = "'w servers" +
  create :: "message list \<Rightarrow> 'w \<Rightarrow> (pyexn + llm_message) \<times> 'w"
  json_loads :: "string \<Rightarrow> pyexn + pyval"
  json_dumps :: "pyval \<Rightarrow> string"

definition call_tool ::
  "('w, 'a) servers_scheme \<Rightarrow> string \<Rightarrow> pyval \<Rightarrow> 'w world \<Rightarrow> 'w outcome" where
  "call_tool sv tool_name arguments =
     try_except
       (if tool_name = ''geocode'' then call_geocode sv arguments
        else if tool_name = ''reverse_geocode'' then call_reverse_geocode sv arguments
        else if tool_name = ''search_poi'' then call_search_poi sv arguments
        else if tool_name = ''get_route'' then call_get_route sv arguments
        else if tool_name = ''get_distance'' then call_get_distance sv arguments
        else if tool_name = ''fastest_route'' then call_fastest_route sv arguments
        else if tool_name = ''get_weather'' then call_get_weather sv arguments
        else if tool_name = ''get_temperature'' then call_get_temperature sv arguments
        else unknown ''Unknown tool: '' tool_name)"

text \<open>The \<open>required\<close> lists of the tool schemas.\<close>

definition required :: "string \<Rightarrow> string list" where
  "required tool_name =
     (if tool_name = ''geocode'' then [''address'']
      else if tool_name = ''reverse_geocode'' then [''lat'', ''lon'']
      else if tool_name = ''search_poi'' then [''query'', ''lat'', ''lon'']
      else if tool_name = ''get_route'' then [''start_lat'', ''start_lon'', ''end_lat'', ''end_lon'']
      else if tool_name = ''get_distance''
        then [''start_lat'', ''start_lon'', ''end_lat'', ''end_lon'']
      else if tool_name = ''fastest_route'' then [''start'', ''end'']
      else if tool_name = ''get_weather'' then [''location'']
      else if tool_name = ''get_temperature'' then [''lat'', ''lon'']
      else if tool_name = ''weather_overlay'' then [''tile_x'', ''tile_y'', ''zoom'']
      else [])"

definition geo_tools :: "string list" where
  "geo_tools = [''geocode'', ''reverse_geocode'', ''search_poi'']"

definition routing_tools :: "string list" where
  "routing_tools = [''get_route'', ''get_distance'', ''fastest_route'']"

definition weather_tools :: "string list" where
  "weather_tools = [''get_weather'', ''get_temperature'', ''weather_overlay'']"

definition interactive_tools :: "string list" where
  "interactive_tools =
     [''geocode'', ''reverse_geocode'', ''search_poi'', ''get_route'', ''get_distance'',
      ''fastest_route'', ''get_weather'', ''get_temperature'']"

section \<open>The orchestration loop of \<open>InteractiveAgent\<close>\<close>

definition max_iterations :: nat where
  "max_iterations = 5"

definition no_response_message :: string where
  "no_response_message =
     ''I processed your request but didn't get a response. Please try rephrasing your question.''"

definition retry_message :: string where
  "retry_message =
     ''I'm having trouble processing your request. Please try again with a simpler question.''"

text \<open>One request to the reasoning engine, with the history as it stands; it is logged.\<close>

definition query_llm ::
  "'w interactive_agent \<Rightarrow> message list \<Rightarrow> 'w world
     \<Rightarrow> (pyexn + llm_message) \<times> 'w world" where
  "query_llm ag h w =
     (case create ag h (ext w) of
        (r, e) \<Rightarrow> (r, w\<lparr>queries := queries w @ [(h, r)], ext := e\<rparr>))"

text \<open>
  The inner \<open>for\<close> loop: each call's arguments are parsed, the tool is called, and the
  result is appended to the history under the call's identifier. An exception of the
  parser leaves the loop (and \<open>chat\<close>) with the history as it is by then.
\<close>

fun run_tool_calls ::
  "'w interactive_agent \<Rightarrow> tool_call list \<Rightarrow> message list \<Rightarrow> 'w world
     \<Rightarrow> (pyexn + unit) \<times> message list \<times> 'w world" where
  "run_tool_calls ag [] h w = (Inr (), h, w)"
| "run_tool_calls ag (tc # tcs) h w =
     (case json_loads ag (tc_arguments tc) of
        Inl e \<Rightarrow> (Inl e, h, w)
      | Inr arguments \<Rightarrow>
          (case call_tool ag (tc_name tc) arguments w of
             (Inl e, w') \<Rightarrow> (Inl e, h, w')
           | (Inr tool_result, w') \<Rightarrow>
               run_tool_calls ag tcs
                 (h @ [ToolMsg (tc_id tc) (tc_name tc) (json_dumps ag tool_result)]) w'))"

function chat_loop ::
  "'w interactive_agent \<Rightarrow> nat \<Rightarrow> message list \<Rightarrow> 'w world
     \<Rightarrow> (pyexn + string) \<times> message list \<times> 'w world" where
  "chat_loop ag iteration h w =
     (if iteration < max_iterations then
        (case query_llm ag h w of
           (Inl e, w1) \<Rightarrow> (Inl e, h, w1)
         | (Inr msg, w1) \<Rightarrow>
             (let h1 = h @ [AssistantMsg (content msg) (tool_calls msg)] in
              if tool_calls msg \<noteq> [] then
                (case run_tool_calls ag (tool_calls msg) h1 w1 of
                   (Inl e, h2, w2) \<Rightarrow> (Inl e, h2, w2)
                 | (Inr u, h2, w2) \<Rightarrow> chat_loop ag (iteration + 1) h2 w2)
              else
                (case content msg of
                   Some text \<Rightarrow>
                     if text \<noteq> [] then (Inr text, h1, w1)
                     else (Inr no_response_message, h1, w1)
                 | None \<Rightarrow> (Inr no_response_message, h1, w1))))
      else (Inr retry_message, h, w))"
  by pat_completeness auto
termination
  by (relation "measure (\<lambda>(ag, iteration, h, w). max_iterations - iteration)") auto

declare chat_loop.simps [simp del]

definition chat ::
  "'w interactive_agent \<Rightarrow> string \<Rightarrow> message list \<Rightarrow> 'w world
     \<Rightarrow> (pyexn + string) \<times> message list \<times> 'w world" where
  "chat ag user_message conversation_history w =
     chat_loop ag 0 (conversation_history @ [UserMsg user_message]) w"

section \<open>A uniform description of the dispatchers\<close>

text \<open>The mapping that the \<open>except\<close> branch returns.\<close>

definition error_payload :: "pyexn \<Rightarrow> pyval" where
  "error_payload e = PyDict [(''error'', PyStr (str_exn e))]"

text \<open>The values of the required arguments, looked up in the order of the call.\<close>

fun eval_args :: "pyval \<Rightarrow> string list \<Rightarrow> pyexn + pyval list" where
  "eval_args arguments [] = Inr []"
| "eval_args arguments (k # ks) =
     and_then (subscript arguments k) (\<lambda>v.
     and_then (eval_args arguments ks) (\<lambda>vs. Inr (v # vs)))"

text \<open>The server method of a tool, applied to the values of its arguments.\<close>

definition server_method ::
  "('w, 'a) servers_scheme \<Rightarrow> string \<Rightarrow> pyval list \<Rightarrow> 'w \<Rightarrow> (pyexn + pyval) \<times> 'w" where
  "server_method sv tool_name vs =
     (if tool_name = ''geocode'' then geo_geocode sv (vs ! 0)
      else if tool_name = ''reverse_geocode'' then geo_reverse_geocode sv (vs ! 0) (vs ! 1)
      else if tool_name = ''search_poi'' then geo_search_poi sv (vs ! 0) (vs ! 1) (vs ! 2)
      else if tool_name = ''get_route''
        then routing_get_route sv (vs ! 0) (vs ! 1) (vs ! 2) (vs ! 3)
      else if tool_name = ''get_distance''
        then routing_get_distance sv (vs ! 0) (vs ! 1) (vs ! 2) (vs ! 3)
      else if tool_name = ''fastest_route'' then routing_fastest_route sv (vs ! 0) (vs ! 1)
      else if tool_name = ''get_weather'' then weather_get_weather sv (vs ! 0)
      else if tool_name = ''get_temperature'' then weather_get_temperature sv (vs ! 0) (vs ! 1)
      else weather_weather_overlay sv (vs ! 0) (vs ! 1) (vs ! 2))"

text \<open>
  What every branch of the dispatchers comes to: the arguments are looked up; if one
  lookup raises, the error mapping is returned and nothing is called; else the method is
  called once; an \<open>Exception\<close> that it raises becomes the error mapping, and anything else
  that it raises is raised by the dispatcher.
\<close>

definition dispatch ::
  "('w, 'a) servers_scheme \<Rightarrow> string \<Rightarrow> pyval \<Rightarrow> 'w world \<Rightarrow> 'w outcome" where
  "dispatch sv tool_name arguments w =
     (case eval_args arguments (required tool_name) of
        Inl e \<Rightarrow> (if is_exception e then Inr (error_payload e) else Inl e, w)
      | Inr vs \<Rightarrow>
          (case server_method sv tool_name vs (ext w) of
             (r, x) \<Rightarrow>
               ((case r of
                   Inl e \<Rightarrow> if is_exception e then Inr (error_payload e) else Inl e
                 | Inr v \<Rightarrow> Inr v),
                w\<lparr>calls := calls w @ [Call (CHR ''_'' # tool_name) vs], ext := x\<rparr>)))"

text \<open>Servers for concrete runs: every method answers \<open>r\<close> and leaves the outside state.\<close>

definition stub_servers :: "pyexn + pyval \<Rightarrow> unit servers" where
  "stub_servers r =
     \<lparr>geo_geocode = (\<lambda>a e. (r, e)),
      geo_reverse_geocode = (\<lambda>a b e. (r, e)),
      geo_search_poi = (\<lambda>a b c e. (r, e)),
      routing_get_route = (\<lambda>a b c d e. (r, e)),
      routing_get_distance = (\<lambda>a b c d e. (r, e)),
      routing_fastest_route = (\<lambda>a b e. (r, e)),
      weather_get_weather = (\<lambda>a e. (r, e)),
      weather_get_temperature = (\<lambda>a b e. (r, e)),
      weather_weather_overlay = (\<lambda>a b c e. (r, e))\<rparr>"

definition world0 :: "unit world" where
  "world0 = \<lparr>calls = [], queries = [], ext = ()\<rparr>"

section \<open>Reading the log of requests\<close>

text \<open>
  \<open>tool_results_for tcs ms\<close>: the messages \<open>ms\<close> are tool results, one for each call of
  \<open>tcs\<close> and in the same order, each under the identifier and the name of its call.
\<close>

fun tool_results_for :: "tool_call list \<Rightarrow> message list \<Rightarrow> bool" where
  "tool_results_for [] ms = (ms = [])"
| "tool_results_for (tc # tcs) (ToolMsg i n c # ms) =
     (i = tc_id tc \<and> n = tc_name tc \<and> tool_results_for tcs ms)"
| "tool_results_for (tc # tcs) ms = False"

text \<open>
  \<open>tool_results ag tcs w\<close>: the calls \<open>tcs\<close> executed in turn through the dispatcher, from the
  world \<open>w\<close>: for each call the tool message with the call's identifier and name and, as
  content, the printed result of the dispatcher on the parsed arguments; and the world
  after the last call. There is no such list when an argument text does not parse or the
  dispatcher raises.
\<close>

fun tool_results ::
  "'w interactive_agent \<Rightarrow> tool_call list \<Rightarrow> 'w world \<Rightarrow> (message list \<times> 'w world) option" where
  "tool_results ag [] w = Some ([], w)"
| "tool_results ag (tc # tcs) w =
     (case json_loads ag (tc_arguments tc) of
        Inl e \<Rightarrow> None
      | Inr arguments \<Rightarrow>
          (case call_tool ag (tc_name tc) arguments w of
             (Inl e, w1) \<Rightarrow> None
           | (Inr tool_result, w1) \<Rightarrow>
               (case tool_results ag tcs w1 of
                  None \<Rightarrow> None
                | Some (ms, w2) \<Rightarrow>
                    Some (ToolMsg (tc_id tc) (tc_name tc) (json_dumps ag tool_result) # ms,
                          w2))))"

text \<open>
  \<open>answered ag q h'\<close>: the request \<open>q\<close> of the log got a message from the engine, and \<open>h'\<close> is
  the history sent with \<open>q\<close>, then the assistant entry of that message, then exactly one
  tool result for each call of that message, in the order of the calls, each under the
  identifier of its call and holding what the dispatcher returned for it; and nothing
  more.
\<close>

definition answered ::
  "'w interactive_agent \<Rightarrow> message list \<times> (pyexn + llm_message) \<Rightarrow> message list \<Rightarrow> bool" where
  "answered ag q h' =
     (case snd q of
        Inl e \<Rightarrow> False
      | Inr msg \<Rightarrow>
          h' = fst q @ AssistantMsg (content msg) (tool_calls msg) # drop (Suc (length (fst q))) h'
          \<and> tool_results_for (tool_calls msg) (drop (Suc (length (fst q))) h')
          \<and> (\<exists>u u'. tool_results ag (tool_calls msg) u
                       = Some (drop (Suc (length (fst q))) h', u')))"

text \<open>\<open>chained ag qs\<close>: each request of the log but the last is answered in the history of the next.\<close>

fun chained ::
  "'w interactive_agent \<Rightarrow> (message list \<times> (pyexn + llm_message)) list \<Rightarrow> bool" where
  "chained ag (q1 # q2 # qs) = (answered ag q1 (fst q2) \<and> chained ag (q2 # qs))"
| "chained ag qs = True"

section \<open>Conditions on the inputs\<close>


text \<open>
  \<open>raises_exceptions_only sv\<close>: whatever a server method of \<open>sv\<close> raises is an instance of
  \<open>Exception\<close>.
\<close>

definition raises_exceptions_only :: "('w, 'a) servers_scheme \<Rightarrow> bool" where
  "raises_exceptions_only sv =
     (\<forall>tool_name vs x.
        case fst (server_method sv tool_name vs x) of
          Inl e \<Rightarrow> is_exception e
        | Inr v \<Rightarrow> True)"

section \<open>Concrete inputs\<close>



subsection \<open>Stub agents\<close>

text \<open>
  Agents for concrete runs. The servers answer the empty mapping; the engine is a
  function of the history; the parser and the printer are \<open>json.loads\<close> and \<open>json.dumps\<close> on
  the texts and payloads that occur in these runs.
\<close>

definition dq :: "string \<Rightarrow> string" where
  "dq s = [CHR 0x22] @ s @ [CHR 0x22]"

text \<open>The JSON text \<open>{"address": "AUB"}\<close>.\<close>

definition address_json :: string where
  "address_json = ''{'' @ dq ''address'' @ '': '' @ dq ''AUB'' @ ''}''"

definition stub_loads :: "string \<Rightarrow> pyexn + pyval" where
  "stub_loads s =
     (if s = ''{}'' then Inr (PyDict [])
      else if s = address_json then Inr (PyDict [(''address'', PyStr ''AUB'')])
      else if s = ''{''
        then Inl (ValueError
          ''Expecting property name enclosed in double quotes: line 1 column 2 (char 1)'')
      else Inl (ValueError ''Expecting value: line 1 column 1 (char 0)''))"

definition stub_dumps :: "pyval \<Rightarrow> string" where
  "stub_dumps v =
     (case v of
        PyDict [] \<Rightarrow> ''{}''
      | PyDict [(k, PyStr s)] \<Rightarrow> ''{'' @ dq k @ '': '' @ dq s @ ''}''
      | _ \<Rightarrow> ''null'')"

definition stub_agent :: "(message list \<Rightarrow> llm_message) \<Rightarrow> unit interactive_agent" where
  "stub_agent engine =
     \<lparr>geo_geocode = (\<lambda>a e. (Inr (PyDict []), e)),
      geo_reverse_geocode = (\<lambda>a b e. (Inr (PyDict []), e)),
      geo_search_poi = (\<lambda>a b c e. (Inr (PyDict []), e)),
      routing_get_route = (\<lambda>a b c d e. (Inr (PyDict []), e)),
      routing_get_distance = (\<lambda>a b c d e. (Inr (PyDict []), e)),
      routing_fastest_route = (\<lambda>a b e. (Inr (PyDict []), e)),
      weather_get_weather = (\<lambda>a e. (Inr (PyDict []), e)),
      weather_get_temperature = (\<lambda>a b e. (Inr (PyDict []), e)),
      weather_weather_overlay = (\<lambda>a b c e. (Inr (PyDict []), e)),
      create = (\<lambda>h e. (Inr (engine h), e)),
      json_loads = stub_loads,
      json_dumps = stub_dumps\<rparr>"

definition geocode_call :: "string \<Rightarrow> tool_call" where
  "geocode_call args = \<lparr>tc_id = ''call_1'', tc_name = ''geocode'', tc_arguments = args\<rparr>"

definition always_tool :: "message list \<Rightarrow> llm_message" where
  "always_tool h = \<lparr>content = None, tool_calls = [geocode_call ''{}'']\<rparr>"

definition broken_arguments :: "message list \<Rightarrow> llm_message" where
  "broken_arguments h = \<lparr>content = None, tool_calls = [geocode_call ''{'']\<rparr>"

text \<open>
  An agent whose engine asks for \<open>geocode\<close> of an address on every request, and whose geo
  server is cancelled in \<open>_geocode\<close>: the method raises \<open>CancelledError\<close>, which is not an
  \<open>Exception\<close> and has no message.
\<close>

definition address_call :: "message list \<Rightarrow> llm_message" where
  "address_call h = \<lparr>content = None, tool_calls = [geocode_call address_json]\<rparr>"

definition cancelled_agent :: "unit interactive_agent" where
  "cancelled_agent = (stub_agent address_call)\<lparr>geo_geocode := (\<lambda>a e. (Inl (BaseError []), e))\<rparr>"

definition two_calls :: "message list \<Rightarrow> llm_message" where
  "two_calls h =
     \<lparr>content = None,
      tool_calls =
        [\<lparr>tc_id = ''call_a'', tc_name = ''geocode'', tc_arguments = ''{}''\<rparr>,
         \<lparr>tc_id = ''call_b'', tc_name = ''geocode'', tc_arguments = ''{''\<rparr>]\<rparr>"

text \<open>The history that a run with \<open>two_calls\<close> leaves behind.\<close>

definition unanswered_history :: "message list" where
  "unanswered_history =
     [UserMsg ''Where is AUB?'',
      AssistantMsg None (tool_calls (two_calls [])),
      ToolMsg ''call_a'' ''geocode''
        (stub_dumps (PyDict [(''error'', PyStr (quoted ''address''))]))]"

definition plain_answer :: "message list \<Rightarrow> llm_message" where
  "plain_answer h = \<lparr>content = Some ''Beirut is the capital of Lebanon.'', tool_calls = []\<rparr>"

fun is_tool_msg :: "message \<Rightarrow> bool" where
  "is_tool_msg (ToolMsg i n c) = True"
| "is_tool_msg m = False"

definition tool_then_answer :: "message list \<Rightarrow> llm_message" where
  "tool_then_answer h =
     (if list_ex is_tool_msg h then \<lparr>content = Some ''No address was given.'', tool_calls = []\<rparr>
      else \<lparr>content = None, tool_calls = [geocode_call ''{}'']\<rparr>)"

section \<open>Properties of the matcher and of the router\<close>

text \<open>What a match gives each item: characters of its class, within its range.\<close>

definition piece_ok :: "item \<Rightarrow> string \<Rightarrow> bool" where
  "piece_ok it p = (list_all (cls it) p \<and> lo it \<le> length p \<and> (case hi it of None \<Rightarrow> True | Some h \<Rightarrow> length p \<le> h))"

lemma candidates_piece_ok:
  assumes "k \<in> set (candidates it s)"
  shows "piece_ok it (take k s)"
proof -
  have b: "lo it \<le> k" "k \<le> length (takeWhile (cls it) s)"
    using assms candidates_bounds by blast+
  have "take k s = take k (takeWhile (cls it) s)"
    using b(2) by (metis takeWhile_dropWhile_id take_append diff_is_0_eq' take_0 append_Nil2)
  then have "set (take k s) \<subseteq> set (takeWhile (cls it) s)"
    by (metis set_take_subset)
  then have "list_all (cls it) (take k s)"
    by (auto simp: list_all_iff dest: set_takeWhileD)
  moreover have "length (take k s) = k"
    using b(2) length_takeWhile_le [of "cls it" s] by simp
  moreover have "case hi it of None \<Rightarrow> True | Some h \<Rightarrow> k \<le> h"
    using assms by (auto simp: candidates_def Let_def split: if_splits option.splits quant.splits)
  ultimately show ?thesis using b(1) by (auto simp: piece_ok_def split: option.splits)
qed

lemma match_items_pieces:
  "match_items its s = Some (ps, r) \<Longrightarrow> list_all2 piece_ok its ps"
proof (induction its arbitrary: s ps r)
  case Nil
  then show ?case by simp
next
  case (Cons it its)
  from Cons.prems obtain k where k: "k \<in> set (candidates it s)"
    and m: "(case match_items its (drop k s) of None \<Rightarrow> None
             | Some (qs, r') \<Rightarrow> Some (take k s # qs, r')) = Some (ps, r)"
    by (auto dest!: first_some_SomeD)
  from m obtain qs where q: "match_items its (drop k s) = Some (qs, r)" "ps = take k s # qs"
    by (auto split: option.splits)
  show ?case using Cons.IH [OF q(1)] candidates_piece_ok [OF k] q(2) by simp
qed

lemma not_digit_minus: "\<not> is_digit CHR ''-''" by (simp add: is_digit_def)
lemma not_digit_point: "\<not> is_digit CHR ''.''" by (simp add: is_digit_def)

lemma takeWhile_all: "list_all P xs \<Longrightarrow> takeWhile P (xs @ ys) = xs @ takeWhile P ys"
  by (induction xs) auto
lemma dropWhile_all: "list_all P xs \<Longrightarrow> dropWhile P (xs @ ys) = dropWhile P ys"
  by (induction xs) auto

lemma takeWhile_all_id: "list_all P xs \<Longrightarrow> takeWhile P xs = xs"
  by (induction xs) auto
lemma dropWhile_all_nil: "list_all P xs \<Longrightarrow> dropWhile P xs = []"
  by (induction xs) auto

lemma unsigned_decimal_number:
  assumes ip: "list_all is_digit ip" "ip \<noteq> []"
    and pt: "pt = [] \<or> pt = ''.''" and fp: "list_all is_digit fp"
  shows "\<exists>x. unsigned_decimal (ip @ pt @ fp) = Some x"
proof (cases "pt = []")
  case True
  have "list_all is_digit (ip @ fp)" using ip fp by simp
  then have e: "takeWhile is_digit (ip @ fp) = ip @ fp" "dropWhile is_digit (ip @ fp) = []"
    by (rule takeWhile_all_id, rule dropWhile_all_nil)
  show ?thesis unfolding unsigned_decimal_def True append_Nil e Let_def using ip by simp
next
  case False
  then have p: "pt = ''.''" using pt by simp
  have e: "takeWhile is_digit (ip @ ''.'' @ fp) = ip" "dropWhile is_digit (ip @ ''.'' @ fp) = ''.'' @ fp"
    using ip(1) by (simp_all add: takeWhile_all dropWhile_all not_digit_point)
  show ?thesis unfolding unsigned_decimal_def p e Let_def using ip fp by simp
qed

lemma py_float_number:
  assumes sg: "sg = [] \<or> sg = ''-''" and ip: "list_all is_digit ip" "ip \<noteq> []"
    and pt: "pt = [] \<or> pt = ''.''" and fp: "list_all is_digit fp"
  shows "\<exists>x. py_float (sg @ ip @ pt @ fp) = Inr x"
proof -
  obtain x where x: "unsigned_decimal (ip @ pt @ fp) = Some x"
    using unsigned_decimal_number [OF ip pt fp] by blast
  show ?thesis
  proof (cases "sg = []")
    case True
    obtain c cs where c: "ip = c # cs" "is_digit c" using ip by (cases ip) auto
    then have "c \<noteq> CHR ''-''" using not_digit_minus by auto
    then have n: "\<not> (case ip @ pt @ fp of c # t \<Rightarrow> c = CHR ''-'' | [] \<Rightarrow> False)"
      using c(1) by simp
    show ?thesis unfolding py_float_def True append_Nil Let_def using n x by simp
  next
    case False
    then have m: "sg = ''-''" using sg by simp
    show ?thesis unfolding py_float_def m Let_def using x by simp
  qed
qed

lemma coord_groups_float:
  assumes "match_items coord_pattern s = Some (ps, r)"
  shows "\<exists>x y. py_float (group 1 coord_pattern ps) = Inr x \<and> py_float (group 2 coord_pattern ps) = Inr y"
proof -
  have "list_all2 piece_ok coord_pattern ps" using assms by (rule match_items_pieces)
  then obtain p0 p1 p2 p3 p4 p5 p6 p7 p8 p9 p10 where
    ps: "ps = [p0, p1, p2, p3, p4, p5, p6, p7, p8, p9, p10]"
    and ok: "piece_ok (rep (\<lambda>c. c = CHR ''-'') 0 (Some 1) Greedy 1) p0"
      "piece_ok (rep is_digit 1 None Greedy 1) p1"
      "piece_ok (rep (\<lambda>c. c = CHR ''.'') 0 (Some 1) Greedy 1) p2"
      "piece_ok (rep is_digit 0 None Greedy 1) p3"
      "piece_ok (rep (\<lambda>c. c = CHR ''-'') 0 (Some 1) Greedy 2) p7"
      "piece_ok (rep is_digit 1 None Greedy 2) p8"
      "piece_ok (rep (\<lambda>c. c = CHR ''.'') 0 (Some 1) Greedy 2) p9"
      "piece_ok (rep is_digit 0 None Greedy 2) p10"
    by (auto simp: coord_pattern_def number_items_def list_all2_Cons1)
  have g: "group 1 coord_pattern ps = p0 @ p1 @ p2 @ p3" "group 2 coord_pattern ps = p7 @ p8 @ p9 @ p10"
    by (simp_all add: ps group_def coord_pattern_def number_items_def rep_def)
  have one: "\<And>c p. list_all (\<lambda>x. x = c) p \<Longrightarrow> length p \<le> 1 \<Longrightarrow> p = [] \<or> p = [c]"
    by (case_tac p) auto
  have "\<exists>x. py_float (p0 @ p1 @ p2 @ p3) = Inr x"
    using ok(1-4) one [of "CHR ''-''" p0] one [of "CHR ''.''" p2]
    by (intro py_float_number) (auto simp: piece_ok_def rep_def)
  moreover have "\<exists>x. py_float (p7 @ p8 @ p9 @ p10) = Inr x"
    using ok(5-8) one [of "CHR ''-''" p7] one [of "CHR ''.''" p9]
    by (intro py_float_number) (auto simp: piece_ok_def rep_def)
  ultimately show ?thesis using g by auto
qed





lemma findall_coords_match:
  "(a, b) \<in> set (findall_coords s) \<Longrightarrow>
     \<exists>t ps r. match_items coord_pattern t = Some (ps, r)
        \<and> a = group 1 coord_pattern ps \<and> b = group 2 coord_pattern ps"
proof (induction s rule: findall_coords.induct)
  case (1 s)
  note e = findall_coords.simps [of s]
  show ?case
  proof (cases "match_items coord_pattern s")
    case None
    show ?thesis
    proof (cases s)
      case Nil
      then show ?thesis using "1.prems" e None by simp
    next
      case (Cons c cs)
      then have "findall_coords s = findall_coords cs" using e None by simp
      then show ?thesis using "1.prems" "1.IH"(1) [OF None Cons] by simp
    qed
  next
    case (Some m)
    obtain ps r where m: "m = (ps, r)" by (cases m)
    have "findall_coords s = (group 1 coord_pattern ps, group 2 coord_pattern ps) # findall_coords r"
      using e Some m by simp
    then show ?thesis using "1.prems" "1.IH"(2) [OF Some [unfolded m] refl] Some m
      by auto
  qed
qed

lemma py_index_in: "py_in sub s \<Longrightarrow> \<exists>i. py_index s sub = Inr i"
  by (induction s) auto

lemma extract_location_total: "\<exists>l. extract_location query = Inr l"
proof -
  have "\<exists>l. extract_location_loop ps query = Inr l" for ps
  proof (induction ps)
    case Nil
    then show ?case by simp
  next
    case (Cons p ps)
    then show ?case using py_index_in [of p "lower query"] by auto
  qed
  then show ?thesis unfolding extract_location_def by blast
qed







subsection \<open>A tile number of many digits\<close>















subsection \<open>The default rule\<close>




subsection \<open>The distance rule\<close>

text \<open>
  Claim C3, amended. The rules are tried in order, so the distance rule is reached only by
  a query without a keyword of rule 1 or rule 2 and without \<open>fastest\<close> or \<open>quickest\<close>. For such
  a query that contains \<open>distance\<close> (in any case of letters) and in which \<open>re.findall\<close> finds
  at least two coordinate pairs, the router returns \<open>get_distance\<close> of the routing server;
  the start is the first pair of the text and the end is the second, read as floats.
\<close>

theorem distance_route:
  assumes "py_in ''distance'' (lower query)"
    and "findall_coords query = (a, b) # (c, d) # others"
    and "\<not> any_in geo_words (lower query)" and "\<not> any_in poi_words (lower query)"
    and "\<not> py_in ''fastest'' (lower query)" and "\<not> py_in ''quickest'' (lower query)"
  shows "\<exists>start_lat start_lon end_lat end_lon.
           py_float a = Inr start_lat \<and> py_float b = Inr start_lon
         \<and> py_float c = Inr end_lat \<and> py_float d = Inr end_lon
         \<and> route_query query =
             Inr (''routing'', ''get_distance'',
                  [(''start_lat'', PyFloat start_lat), (''start_lon'', PyFloat start_lon),
                   (''end_lat'', PyFloat end_lat), (''end_lon'', PyFloat end_lon)])"
proof -
  have "(a, b) \<in> set (findall_coords query)" "(c, d) \<in> set (findall_coords query)"
    using assms(2) by simp_all
  then obtain x1 y1 x2 y2 where f: "py_float a = Inr x1" "py_float b = Inr y1"
      "py_float c = Inr x2" "py_float d = Inr y2"
    using findall_coords_match coord_groups_float by metis
  have r: "any_in routing_words (lower query)"
    using assms(1) by (simp add: any_in_def routing_words_def)
  show ?thesis
    using assms r f by (simp add: route_query_def Let_def)
qed

text \<open>The example query of the program's \<open>main\<close>.\<close>

theorem distance_route_witness:
  "route_query ''What's the distance between 33.8938,35.5018 and 34.4344,35.8444?'' =
     Inr (''routing'', ''get_distance'',
          [(''start_lat'', PyFloat (338938 / 10000)), (''start_lon'', PyFloat (355018 / 10000)),
           (''end_lat'', PyFloat (344344 / 10000)), (''end_lon'', PyFloat (358444 / 10000))])"
proof -
  let ?q = "''What's the distance between 33.8938,35.5018 and 34.4344,35.8444?''"
  have h1: "py_in ''distance'' (lower ?q)" by code_simp
  have h2: "findall_coords ?q = (''33.8938'', ''35.5018'') # (''34.4344'', ''35.8444'') # []"
    by code_simp
  have h3: "\<not> any_in geo_words (lower ?q)" by code_simp
  have h4: "\<not> any_in poi_words (lower ?q)" by code_simp
  have h5: "\<not> py_in ''fastest'' (lower ?q)" by code_simp
  have h6: "\<not> py_in ''quickest'' (lower ?q)" by code_simp
  have f: "py_float ''33.8938'' = Inr (338938 / 10000)" "py_float ''35.5018'' = Inr (355018 / 10000)"
    "py_float ''34.4344'' = Inr (344344 / 10000)" "py_float ''35.8444'' = Inr (358444 / 10000)"
    by (simp_all add: py_float_def unsigned_decimal_def dec_val_def digit_val_def is_digit_def
          Let_def)
  show ?thesis using distance_route [OF h1 h2 h3 h4 h5 h6] f by auto
qed

text \<open>
  Claim C3 as stated fails: this query contains \<open>distance\<close> and two coordinate pairs, and
  rule 2 takes it for its \<open>find\<close>: a search for a place around the first pair.
\<close>

theorem distance_route_counterexample:
  "py_in ''distance'' ''find the distance from 1,2 to 3,4''
   \<and> findall_coords ''find the distance from 1,2 to 3,4'' = [(''1'', ''2''), (''3'', ''4'')]
   \<and> route_query ''find the distance from 1,2 to 3,4'' =
        Inr (''geo'', ''search_poi'',
             [(''query'', PyStr ''place''), (''lat'', PyFloat 1), (''lon'', PyFloat 2)])"
  by code_simp

subsection \<open>The search for places\<close>

text \<open>
  Claim C9. A query that rule 1 does not take, that contains \<open>cafe\<close> and that has no
  coordinate pair in its text is routed to \<open>search_poi\<close> of the geo server with the query
  \<open>cafe\<close> around the default coordinates; \<open>Find cafes near AUB\<close> is such a query.
\<close>

theorem cafe_route:
  assumes "\<not> any_in geo_words (lower query)" and "py_in ''cafe'' (lower query)"
    and "re_search coord_pattern query = None"
  shows "route_query query =
           Inr (''geo'', ''search_poi'',
                [(''query'', PyStr ''cafe''), (''lat'', PyFloat default_lat),
                 (''lon'', PyFloat default_lon)])"
proof -
  obtain l where l: "extract_location query = Inr l" using extract_location_total by blast
  have p: "any_in poi_words (lower query)"
    using assms(2) by (simp add: any_in_def poi_words_def)
  have "extract_location_for_poi query =
      Inr [(''query'', PyStr ''cafe''), (''lat'', PyFloat default_lat), (''lon'', PyFloat default_lon)]"
    using assms(2,3) by (simp add: extract_location_for_poi_def l extract_coords_def getitem_def)
  then show ?thesis using assms(1) p by (simp add: route_query_def Let_def)
qed

text \<open>The query of the scenario.\<close>

theorem cafe_route_witness:
  "route_query ''Find cafes near AUB'' =
           Inr (''geo'', ''search_poi'',
                [(''query'', PyStr ''cafe''), (''lat'', PyFloat default_lat),
                 (''lon'', PyFloat default_lon)])"
proof -
  have h1: "\<not> any_in geo_words (lower ''Find cafes near AUB'')" by code_simp
  have h2: "py_in ''cafe'' (lower ''Find cafes near AUB'')" by code_simp
  have h3: "re_search coord_pattern ''Find cafes near AUB'' = None" by code_simp
  show ?thesis using cafe_route [OF h1 h2 h3] .
qed

subsection \<open>The extraction of two coordinate pairs\<close>

text \<open>
  Claim C6, amended. Whatever the text contains, the extraction of two coordinate pairs
  returns the two default places: Beirut (33.8938, 35.5018) as the start and Tripoli
  (34.4344, 35.8444) as the end.
\<close>

theorem two_coords_defaults:
  "extract_two_coords query =
     [(''start_lat'', PyFloat (338938 / 10000)), (''start_lon'', PyFloat (355018 / 10000)),
      (''end_lat'', PyFloat (344344 / 10000)), (''end_lon'', PyFloat (358444 / 10000))]"
  by (simp add: extract_two_coords_def default_lat_def default_lon_def)

text \<open>
  Claim C6 as stated fails: this text has two coordinate pairs, the first is \<open>1,2\<close>, and the
  start latitude returned is the default one, not 1.
\<close>

theorem two_coords_counterexample:
  "findall_coords ''from 1,2 to 3,4'' = [(''1'', ''2''), (''3'', ''4'')]
   \<and> py_float ''1'' = Inr 1
   \<and> map_of (extract_two_coords ''from 1,2 to 3,4'') ''start_lat'' = Some (PyFloat (338938 / 10000))
   \<and> map_of (extract_two_coords ''from 1,2 to 3,4'') ''start_lat'' \<noteq> Some (PyFloat 1)"
proof -
  have "findall_coords ''from 1,2 to 3,4'' = [(''1'', ''2''), (''3'', ''4'')]" by code_simp
  moreover have "py_float ''1'' = Inr 1"
    by (simp add: py_float_def unsigned_decimal_def dec_val_def digit_val_def is_digit_def Let_def)
  ultimately show ?thesis by (simp add: extract_two_coords_def default_lat_def)
qed

section \<open>Properties of the dispatchers\<close>

lemmas dispatch_unfold =
  dispatch_def server_method_def required_def try_except_def with_arg_def invoke_def error_payload_def

lemma try_geocode: "try_except (call_geocode sv arguments) w = dispatch sv ''geocode'' arguments w"
  by (auto simp: dispatch_unfold call_geocode_def split: sum.splits prod.splits if_splits)

lemma try_reverse_geocode:
  "try_except (call_reverse_geocode sv arguments) w = dispatch sv ''reverse_geocode'' arguments w"
  by (auto simp: dispatch_unfold call_reverse_geocode_def split: sum.splits prod.splits if_splits)

lemma try_search_poi:
  "try_except (call_search_poi sv arguments) w = dispatch sv ''search_poi'' arguments w"
  by (auto simp: dispatch_unfold call_search_poi_def split: sum.splits prod.splits if_splits)

lemma try_get_route:
  "try_except (call_get_route sv arguments) w = dispatch sv ''get_route'' arguments w"
  by (auto simp: dispatch_unfold call_get_route_def split: sum.splits prod.splits if_splits)

lemma try_get_distance:
  "try_except (call_get_distance sv arguments) w = dispatch sv ''get_distance'' arguments w"
  by (auto simp: dispatch_unfold call_get_distance_def split: sum.splits prod.splits if_splits)

lemma try_fastest_route:
  "try_except (call_fastest_route sv arguments) w = dispatch sv ''fastest_route'' arguments w"
  by (auto simp: dispatch_unfold call_fastest_route_def split: sum.splits prod.splits if_splits)

lemma try_get_weather:
  "try_except (call_get_weather sv arguments) w = dispatch sv ''get_weather'' arguments w"
  by (auto simp: dispatch_unfold call_get_weather_def split: sum.splits prod.splits if_splits)

lemma try_get_temperature:
  "try_except (call_get_temperature sv arguments) w = dispatch sv ''get_temperature'' arguments w"
  by (auto simp: dispatch_unfold call_get_temperature_def split: sum.splits prod.splits if_splits)

lemma try_weather_overlay:
  "try_except (call_weather_overlay sv arguments) w = dispatch sv ''weather_overlay'' arguments w"
  by (auto simp: dispatch_unfold call_weather_overlay_def split: sum.splits prod.splits if_splits)

lemmas try_tools = try_geocode try_reverse_geocode try_search_poi try_get_route try_get_distance
  try_fastest_route try_get_weather try_get_temperature try_weather_overlay

lemma call_tool_dispatch:
  "tool_name \<in> set interactive_tools \<Longrightarrow>
     call_tool sv tool_name arguments w = dispatch sv tool_name arguments w"
  by (auto simp: interactive_tools_def call_tool_def try_tools)

lemma call_geo_tool_dispatch:
  "tool_name \<in> set geo_tools \<Longrightarrow>
     call_geo_tool sv tool_name arguments w = dispatch sv tool_name arguments w"
  by (auto simp: geo_tools_def call_geo_tool_def try_tools)

lemma call_routing_tool_dispatch:
  "tool_name \<in> set routing_tools \<Longrightarrow>
     call_routing_tool sv tool_name arguments w = dispatch sv tool_name arguments w"
  by (auto simp: routing_tools_def call_routing_tool_def try_tools)

lemma call_weather_tool_dispatch:
  "tool_name \<in> set weather_tools \<Longrightarrow>
     call_weather_tool sv tool_name arguments w = dispatch sv tool_name arguments w"
  by (auto simp: weather_tools_def call_weather_tool_def try_tools)

lemma try_except_raises: "try_except body w = (Inl e, w') \<Longrightarrow> \<not> is_exception e"
  by (auto simp: try_except_def split: sum.splits prod.splits if_splits)

lemma subscript_exception: "subscript a k = Inl e \<Longrightarrow> is_exception e"
  by (cases a) (auto simp: getitem_def split: option.splits)

lemma eval_args_exception: "eval_args a ks = Inl e \<Longrightarrow> is_exception e"
proof (induction ks arbitrary: e)
  case Nil
  then show ?case by simp
next
  case (Cons k ks)
  show ?case
  proof (cases "subscript a k")
    case (Inl e1)
    then show ?thesis using Cons.prems subscript_exception by auto
  next
    case (Inr v)
    then show ?thesis using Cons by (cases "eval_args a ks") auto
  qed
qed

lemma dispatch_returns:
  assumes "raises_exceptions_only sv"
  shows "\<exists>r w'. dispatch sv name args w = (Inr r, w')"
proof (cases "eval_args args (required name)")
  case (Inl e)
  then show ?thesis using eval_args_exception [OF Inl] by (simp add: dispatch_def)
next
  case (Inr vs)
  obtain r x where m: "server_method sv name vs (ext w) = (r, x)"
    by (cases "server_method sv name vs (ext w)")
  have "case r of Inl e \<Rightarrow> is_exception e | Inr v \<Rightarrow> True"
    using assms m unfolding raises_exceptions_only_def
    by (metis fst_conv)
  then show ?thesis using Inr m by (cases r) (simp_all add: dispatch_def)
qed

lemma call_tool_unknown:
  "tool_name \<notin> set interactive_tools \<Longrightarrow>
     call_tool sv tool_name arguments w
       = (Inr (PyDict [(''error'', PyStr (''Unknown tool: '' @ tool_name))]), w)"
  by (simp add: interactive_tools_def call_tool_def try_except_def unknown_def)




lemma call_tool_returns:
  assumes "raises_exceptions_only sv"
  shows "\<exists>r w'. call_tool sv name args w = (Inr r, w')"
proof (cases "name \<in> set interactive_tools")
  case True
  then show ?thesis using dispatch_returns [OF assms] by (simp add: call_tool_dispatch)
next
  case False
  then show ?thesis by (simp add: call_tool_unknown)
qed

lemma eval_args_missing:
  "find (\<lambda>k. map_of d k = None) ks = Some k \<Longrightarrow> eval_args (PyDict d) ks = Inl (KeyError k)"
  by (induction ks) (auto simp: getitem_def split: if_splits option.splits)

lemma find_missing:
  "\<not> set ks \<subseteq> fst ` set d \<Longrightarrow> \<exists>k. find (\<lambda>k. map_of d k = None) ks = Some k"
  by (induction ks) (auto simp: map_of_eq_None_iff)

lemma missing_dispatch:
  assumes k: "find (\<lambda>k. map_of d k = None) (required tool_name) = Some k"
  shows "dispatch sv tool_name (PyDict d) w = (Inr (PyDict [(''error'', PyStr (quoted k))]), w)"
proof -
  have "eval_args (PyDict d) (required tool_name) = Inl (KeyError k)"
    using k by (rule eval_args_missing)
  then show ?thesis
    by (simp add: dispatch_def error_payload_def quoted_def)
qed




lemma wrappers_raise:
  "call_geo_tool sv name args w = (Inl e, w') \<Longrightarrow> \<not> is_exception e"
  "call_routing_tool sv name args w = (Inl e, w') \<Longrightarrow> \<not> is_exception e"
  "call_weather_tool sv name args w = (Inl e, w') \<Longrightarrow> \<not> is_exception e"
  "call_tool sv name args w = (Inl e, w') \<Longrightarrow> \<not> is_exception e"
  unfolding call_geo_tool_def call_routing_tool_def call_weather_tool_def call_tool_def
  by (rule try_except_raises, assumption)+


subsection \<open>A missing argument\<close>

text \<open>
  Claim C4. For a known tool and a mapping of arguments that lacks a required one, each
  dispatcher returns the error mapping whose message is the first missing key between
  quotes (the text of the \<open>KeyError\<close>), and the world is returned as it was: no server method
  has been called.
\<close>

theorem missing_argument_rejected:
  assumes "\<not> set (required tool_name) \<subseteq> fst ` set d"
  shows "\<exists>k. find (\<lambda>k. map_of d k = None) (required tool_name) = Some k
    \<and> (tool_name \<in> set interactive_tools \<longrightarrow>
         call_tool sv tool_name (PyDict d) w = (Inr (PyDict [(''error'', PyStr (quoted k))]), w))
    \<and> (tool_name \<in> set geo_tools \<longrightarrow>
         call_geo_tool sv tool_name (PyDict d) w
           = (Inr (PyDict [(''error'', PyStr (quoted k))]), w))
    \<and> (tool_name \<in> set routing_tools \<longrightarrow>
         call_routing_tool sv tool_name (PyDict d) w
           = (Inr (PyDict [(''error'', PyStr (quoted k))]), w))
    \<and> (tool_name \<in> set weather_tools \<longrightarrow>
         call_weather_tool sv tool_name (PyDict d) w
           = (Inr (PyDict [(''error'', PyStr (quoted k))]), w))"
proof -
  obtain k where k: "find (\<lambda>k. map_of d k = None) (required tool_name) = Some k"
    using find_missing [OF assms] by blast
  note m = missing_dispatch [OF k, of sv w]
  show ?thesis
  proof (intro exI [of _ k] conjI impI)
    show "find (\<lambda>k. map_of d k = None) (required tool_name) = Some k" by (rule k)
  next
    assume "tool_name \<in> set interactive_tools"
    then show "call_tool sv tool_name (PyDict d) w = (Inr (PyDict [(''error'', PyStr (quoted k))]), w)"
      using m by (simp only: call_tool_dispatch)
  next
    assume "tool_name \<in> set geo_tools"
    then show "call_geo_tool sv tool_name (PyDict d) w = (Inr (PyDict [(''error'', PyStr (quoted k))]), w)"
      using m by (simp only: call_geo_tool_dispatch)
  next
    assume "tool_name \<in> set routing_tools"
    then show "call_routing_tool sv tool_name (PyDict d) w = (Inr (PyDict [(''error'', PyStr (quoted k))]), w)"
      using m by (simp only: call_routing_tool_dispatch)
  next
    assume "tool_name \<in> set weather_tools"
    then show "call_weather_tool sv tool_name (PyDict d) w = (Inr (PyDict [(''error'', PyStr (quoted k))]), w)"
      using m by (simp only: call_weather_tool_dispatch)
  qed
qed

text \<open>
  \<open>reverse_geocode\<close> with a latitude and no longitude, \<open>fastest_route\<close> with no start,
  \<open>weather_overlay\<close> with no argument at all.
\<close>

theorem missing_argument_rejected_witness:
  "call_tool (stub_servers (Inr PyNone)) ''reverse_geocode'' (PyDict [(''lat'', PyFloat 1)]) world0
     = (Inr (PyDict [(''error'', PyStr (quoted ''lon''))]), world0)
   \<and> call_geo_tool (stub_servers (Inr PyNone)) ''reverse_geocode'' (PyDict [(''lat'', PyFloat 1)])
       world0
     = (Inr (PyDict [(''error'', PyStr (quoted ''lon''))]), world0)
   \<and> call_routing_tool (stub_servers (Inr PyNone)) ''fastest_route''
       (PyDict [(''end'', PyStr ''Tripoli'')]) world0
     = (Inr (PyDict [(''error'', PyStr (quoted ''start''))]), world0)
   \<and> call_weather_tool (stub_servers (Inr PyNone)) ''weather_overlay'' (PyDict []) world0
     = (Inr (PyDict [(''error'', PyStr (quoted ''tile_x''))]), world0)
   \<and> calls world0 = []"
proof -
  let ?sv = "stub_servers (Inr PyNone)"
  have h1: "\<not> set (required ''reverse_geocode'') \<subseteq> fst ` set [(''lat'', PyFloat 1)]"
    and h2: "\<not> set (required ''fastest_route'') \<subseteq> fst ` set [(''end'', PyStr ''Tripoli'')]"
    and h3: "\<not> set (required ''weather_overlay'') \<subseteq> fst ` set ([] :: pydict)"
    by (simp_all add: required_def)
  have i: "''reverse_geocode'' \<in> set interactive_tools" "''reverse_geocode'' \<in> set geo_tools"
    "''fastest_route'' \<in> set routing_tools" "''weather_overlay'' \<in> set weather_tools"
    by (simp_all add: interactive_tools_def geo_tools_def routing_tools_def weather_tools_def)
  have f: "find (\<lambda>k. map_of [(''lat'', PyFloat 1)] k = None) (required ''reverse_geocode'')
      = Some ''lon''"
    "find (\<lambda>k. map_of [(''end'', PyStr ''Tripoli'')] k = None) (required ''fastest_route'')
      = Some ''start''"
    "find (\<lambda>k. map_of ([] :: pydict) k = None) (required ''weather_overlay'') = Some ''tile_x''"
    by (simp_all add: required_def)
  have a: "call_tool ?sv ''reverse_geocode'' (PyDict [(''lat'', PyFloat 1)]) world0
        = (Inr (PyDict [(''error'', PyStr (quoted ''lon''))]), world0)
      \<and> call_geo_tool ?sv ''reverse_geocode'' (PyDict [(''lat'', PyFloat 1)]) world0
        = (Inr (PyDict [(''error'', PyStr (quoted ''lon''))]), world0)"
    using missing_argument_rejected [OF h1, of ?sv world0] i(1,2) f(1) by auto
  have b: "call_routing_tool ?sv ''fastest_route'' (PyDict [(''end'', PyStr ''Tripoli'')]) world0
        = (Inr (PyDict [(''error'', PyStr (quoted ''start''))]), world0)"
    using missing_argument_rejected [OF h2, of ?sv world0] i(3) f(2) by auto
  have c: "call_weather_tool ?sv ''weather_overlay'' (PyDict []) world0
        = (Inr (PyDict [(''error'', PyStr (quoted ''tile_x''))]), world0)"
    using missing_argument_rejected [OF h3, of ?sv world0] i(4) f(3) by auto
  show ?thesis using a b c by (simp add: world0_def)
qed

subsection \<open>An exception of a server method\<close>

text \<open>
  Claim C2, amended. When the arguments of a known tool are all there and the server
  method raises \<open>e\<close>: if \<open>e\<close> is an instance of \<open>Exception\<close>, each dispatcher returns the
  mapping with the single key \<open>error\<close> holding \<open>str(e)\<close> (there is no \<open>success\<close> field, and
  the text is empty when the exception has no message); if it is not
  (\<open>CancelledError\<close>, \<open>KeyboardInterrupt\<close>, \<open>SystemExit\<close>), the dispatcher raises \<open>e\<close> to its
  caller. And whatever the tool name, the arguments and the world, no dispatcher raises
  an instance of \<open>Exception\<close>.
\<close>

theorem provider_exception_contained:
  assumes "eval_args arguments (required tool_name) = Inr vs"
    and "server_method sv tool_name vs (ext w) = (Inl e, x)"
    and "w' = w\<lparr>calls := calls w @ [Call (CHR ''_'' # tool_name) vs], ext := x\<rparr>"
    and "outcome = (if is_exception e then Inr (PyDict [(''error'', PyStr (str_exn e))])
                    else Inl e)"
  shows "(tool_name \<in> set interactive_tools \<longrightarrow>
           call_tool sv tool_name arguments w = (outcome, w'))
    \<and> (tool_name \<in> set geo_tools \<longrightarrow>
           call_geo_tool sv tool_name arguments w = (outcome, w'))
    \<and> (tool_name \<in> set routing_tools \<longrightarrow>
           call_routing_tool sv tool_name arguments w = (outcome, w'))
    \<and> (tool_name \<in> set weather_tools \<longrightarrow>
           call_weather_tool sv tool_name arguments w = (outcome, w'))
    \<and> (\<forall>name args u ex u'. call_tool sv name args u = (Inl ex, u') \<longrightarrow> \<not> is_exception ex)
    \<and> (\<forall>name args u ex u'. call_geo_tool sv name args u = (Inl ex, u') \<longrightarrow> \<not> is_exception ex)
    \<and> (\<forall>name args u ex u'.
          call_routing_tool sv name args u = (Inl ex, u') \<longrightarrow> \<not> is_exception ex)
    \<and> (\<forall>name args u ex u'.
          call_weather_tool sv name args u = (Inl ex, u') \<longrightarrow> \<not> is_exception ex)"
proof -
  have d: "dispatch sv tool_name arguments w = (outcome, w')"
    using assms by (simp add: dispatch_def error_payload_def)
  show ?thesis
  proof (intro conjI impI allI)
    assume "tool_name \<in> set interactive_tools"
    then show "call_tool sv tool_name arguments w = (outcome, w')"
      using d by (simp only: call_tool_dispatch)
  next
    assume "tool_name \<in> set geo_tools"
    then show "call_geo_tool sv tool_name arguments w = (outcome, w')"
      using d by (simp only: call_geo_tool_dispatch)
  next
    assume "tool_name \<in> set routing_tools"
    then show "call_routing_tool sv tool_name arguments w = (outcome, w')"
      using d by (simp only: call_routing_tool_dispatch)
  next
    assume "tool_name \<in> set weather_tools"
    then show "call_weather_tool sv tool_name arguments w = (outcome, w')"
      using d by (simp only: call_weather_tool_dispatch)
  next
    fix name args u ex u'
    assume "call_tool sv name args u = (Inl ex, u')"
    then show "\<not> is_exception ex" by (rule wrappers_raise(4))
  next
    fix name args u ex u'
    assume "call_geo_tool sv name args u = (Inl ex, u')"
    then show "\<not> is_exception ex" by (rule wrappers_raise(1))
  next
    fix name args u ex u'
    assume "call_routing_tool sv name args u = (Inl ex, u')"
    then show "\<not> is_exception ex" by (rule wrappers_raise(2))
  next
    fix name args u ex u'
    assume "call_weather_tool sv name args u = (Inl ex, u')"
    then show "\<not> is_exception ex" by (rule wrappers_raise(3))
  qed
qed

text \<open>The geo server raises an \<open>Exception\<close> on \<open>geocode\<close>.\<close>

theorem provider_exception_contained_witness:
  "call_tool (stub_servers (Inl (OtherError ''boom''))) ''geocode''
     (PyDict [(''address'', PyStr ''AUB'')]) world0
   = (Inr (PyDict [(''error'', PyStr ''boom'')]),
      world0\<lparr>calls := [Call ''_geocode'' [PyStr ''AUB'']]\<rparr>)
   \<and> call_geo_tool (stub_servers (Inl (OtherError ''boom''))) ''geocode''
     (PyDict [(''address'', PyStr ''AUB'')]) world0
   = (Inr (PyDict [(''error'', PyStr ''boom'')]),
      world0\<lparr>calls := [Call ''_geocode'' [PyStr ''AUB'']]\<rparr>)"
proof -
  let ?sv = "stub_servers (Inl (OtherError ''boom''))"
  have a: "eval_args (PyDict [(''address'', PyStr ''AUB'')]) (required ''geocode'')
      = Inr [PyStr ''AUB'']"
    by (simp add: required_def getitem_def)
  have m: "server_method ?sv ''geocode'' [PyStr ''AUB''] (ext world0) = (Inl (OtherError ''boom''), ())"
    by (simp add: server_method_def stub_servers_def)
  have w: "world0\<lparr>calls := [Call ''_geocode'' [PyStr ''AUB'']]\<rparr>
      = world0\<lparr>calls := calls world0 @ [Call (CHR ''_'' # ''geocode'') [PyStr ''AUB'']], ext := ()\<rparr>"
    by (simp add: world0_def)
  have o: "Inr (PyDict [(''error'', PyStr ''boom'')])
      = (if is_exception (OtherError ''boom'')
         then Inr (PyDict [(''error'', PyStr (str_exn (OtherError ''boom'')))])
         else Inl (OtherError ''boom''))"
    by simp
  have i: "''geocode'' \<in> set interactive_tools" "''geocode'' \<in> set geo_tools"
    by (simp_all add: interactive_tools_def geo_tools_def)
  show ?thesis using provider_exception_contained [OF a m w o] i by simp
qed

text \<open>
  Claim C2 as stated fails. The method raises an exception without a message: the result
  has no \<open>success\<close> field, and its \<open>error\<close> is the empty text. The method raises what is not
  an \<open>Exception\<close>, as a cancelled call does: the dispatcher raises it to its caller.
\<close>

theorem provider_exception_counterexample:
  "call_tool (stub_servers (Inl (OtherError []))) ''geocode''
     (PyDict [(''address'', PyStr ''AUB'')]) world0
   = (Inr (PyDict [(''error'', PyStr [])]),
      world0\<lparr>calls := [Call ''_geocode'' [PyStr ''AUB'']]\<rparr>)
   \<and> map_of [(''error'', PyStr [])] ''success'' = None
   \<and> call_tool (stub_servers (Inl (BaseError []))) ''geocode''
     (PyDict [(''address'', PyStr ''AUB'')]) world0
   = (Inl (BaseError []), world0\<lparr>calls := [Call ''_geocode'' [PyStr ''AUB'']]\<rparr>)"
  by (simp add: call_tool_def try_except_def call_geocode_def with_arg_def getitem_def
      invoke_def stub_servers_def world0_def)

subsection \<open>The shape of the result of \<open>process_query\<close>\<close>




section \<open>Properties of the orchestration loop\<close>

lemma tool_results_shape:
  "tool_results ag tcs w = Some (ms, w') \<Longrightarrow> tool_results_for tcs ms"
proof (induction tcs arbitrary: w ms)
  case Nil
  then show ?case by simp
next
  case (Cons tc tcs)
  then show ?case
    by (auto split: sum.splits prod.splits option.splits)
qed

lemma answered_append:
  "tool_results ag (tool_calls msg) u = Some (ms, u') \<Longrightarrow>
     answered ag (h, Inr msg) (h @ AssistantMsg (content msg) (tool_calls msg) # ms)"
  using tool_results_shape [of ag "tool_calls msg" u ms u'] by (auto simp: answered_def)

lemma dispatch_queries: "queries (snd (dispatch sv name args w)) = queries w"
  by (simp add: dispatch_def split: sum.splits prod.splits)

lemma call_tool_queries: "queries (snd (call_tool sv name args w)) = queries w"
proof (cases "name \<in> set interactive_tools")
  case True
  then show ?thesis by (simp add: call_tool_dispatch dispatch_queries)
next
  case False
  then show ?thesis by (simp add: call_tool_unknown)
qed

lemma run_tool_calls_queries:
  "run_tool_calls ag tcs h w = (r, h', w') \<Longrightarrow> queries w' = queries w"
proof (induction tcs arbitrary: h w)
  case Nil
  then show ?case by simp
next
  case (Cons tc tcs)
  show ?case
  proof (cases "json_loads ag (tc_arguments tc)")
    case (Inl e)
    then show ?thesis using Cons.prems by simp
  next
    case (Inr arguments)
    obtain res w1 where c: "call_tool ag (tc_name tc) arguments w = (res, w1)"
      by (cases "call_tool ag (tc_name tc) arguments w")
    have q: "queries w1 = queries w"
      using call_tool_queries [of ag "tc_name tc" arguments w] c by simp
    show ?thesis
    proof (cases res)
      case (Inl e)
      then show ?thesis using Cons.prems \<open>json_loads ag (tc_arguments tc) = Inr arguments\<close> c q
        by simp
    next
      case (Inr tool_result)
      then have "run_tool_calls ag tcs
          (h @ [ToolMsg (tc_id tc) (tc_name tc) (json_dumps ag tool_result)]) w1 = (r, h', w')"
        using Cons.prems \<open>json_loads ag (tc_arguments tc) = Inr arguments\<close> c by simp
      then have "queries w' = queries w1" by (rule Cons.IH)
      then show ?thesis using q by simp
    qed
  qed
qed

text \<open>The inner loop, when it ends without exception, has appended the results of its calls.\<close>

lemma run_tool_calls_results:
  "run_tool_calls ag tcs h w = (Inr (), h', w') \<Longrightarrow>
     \<exists>ms. h' = h @ ms \<and> tool_results ag tcs w = Some (ms, w')"
proof (induction tcs arbitrary: h w)
  case Nil
  then show ?case by simp
next
  case (Cons tc tcs)
  show ?case
  proof (cases "json_loads ag (tc_arguments tc)")
    case (Inl e)
    then show ?thesis using Cons.prems by simp
  next
    case (Inr arguments)
    obtain res w1 where c: "call_tool ag (tc_name tc) arguments w = (res, w1)"
      by (cases "call_tool ag (tc_name tc) arguments w")
    show ?thesis
    proof (cases res)
      case (Inl e)
      then show ?thesis using Cons.prems \<open>json_loads ag (tc_arguments tc) = Inr arguments\<close> c
        by simp
    next
      case (Inr tool_result)
      let ?m = "ToolMsg (tc_id tc) (tc_name tc) (json_dumps ag tool_result)"
      have "run_tool_calls ag tcs (h @ [?m]) w1 = (Inr (), h', w')"
        using Cons.prems \<open>json_loads ag (tc_arguments tc) = Inr arguments\<close> c Inr by simp
      then obtain ms where "h' = (h @ [?m]) @ ms" "tool_results ag tcs w1 = Some (ms, w')"
        using Cons.IH by blast
      then show ?thesis
        using \<open>json_loads ag (tc_arguments tc) = Inr arguments\<close> c Inr
        by (intro exI [of _ "?m # ms"]) simp
    qed
  qed
qed

lemma run_tool_calls_answered:
  assumes "run_tool_calls ag (tool_calls msg) (h @ [AssistantMsg (content msg) (tool_calls msg)]) w
      = (r, h', w')"
  shows "queries w' = queries w \<and> (r = Inr () \<longrightarrow> answered ag (h, Inr msg) h')"
proof
  show "queries w' = queries w" using assms by (rule run_tool_calls_queries)
  show "r = Inr () \<longrightarrow> answered ag (h, Inr msg) h'"
  proof
    assume "r = Inr ()"
    then obtain ms where "h' = (h @ [AssistantMsg (content msg) (tool_calls msg)]) @ ms"
      "tool_results ag (tool_calls msg) w = Some (ms, w')"
      using assms run_tool_calls_results by blast
    then show "answered ag (h, Inr msg) h'"
      using answered_append [of ag msg w ms w' h] by simp
  qed
qed

lemma run_tool_calls_succeeds:
  assumes "raises_exceptions_only ag"
    and "\<forall>tc \<in> set tcs. \<exists>v. json_loads ag (tc_arguments tc) = Inr v"
  shows "\<exists>h' w'. run_tool_calls ag tcs h w = (Inr (), h', w')"
  using assms(2)
proof (induction tcs arbitrary: h w)
  case Nil
  then show ?case by simp
next
  case (Cons tc tcs)
  obtain v where v: "json_loads ag (tc_arguments tc) = Inr v" using Cons.prems by auto
  obtain res w1 where c: "call_tool ag (tc_name tc) v w = (Inr res, w1)"
    using call_tool_returns [OF assms(1)] by blast
  show ?case using Cons.IH Cons.prems v c by simp
qed

lemma chat_loop_stop:
  "\<not> iteration < max_iterations \<Longrightarrow> chat_loop ag iteration h w = (Inr retry_message, h, w)"
  by (simp add: chat_loop.simps)

lemma query_llm_eq:
  "create ag h (ext w) = (r, e) \<Longrightarrow>
     query_llm ag h w = (r, w\<lparr>queries := queries w @ [(h, r)], ext := e\<rparr>)"
  by (simp add: query_llm_def)

lemma chained_Cons:
  "chained ag qs \<Longrightarrow> (qs \<noteq> [] \<Longrightarrow> answered ag q (fst (hd qs))) \<Longrightarrow> chained ag (q # qs)"
  by (cases qs) auto

lemma chat_loop_trace:
  assumes "max_iterations - iteration = n"
    and "chat_loop ag iteration h w = (res, h', w')"
  shows "\<exists>qs. queries w' = queries w @ qs \<and> chained ag qs
      \<and> (qs \<noteq> [] \<longrightarrow> fst (hd qs) = h)
      \<and> (qs = [] \<longrightarrow> h' = h)
      \<and> (iteration < max_iterations \<longrightarrow> qs \<noteq> [])
      \<and> (\<forall>answer. res = Inr answer \<longrightarrow> qs \<noteq> [] \<longrightarrow> answered ag (last qs) h')"
  using assms
proof (induction n arbitrary: iteration h w)
  case 0
  then have "\<not> iteration < max_iterations" by simp
  then have "chat_loop ag iteration h w = (Inr retry_message, h, w)" by (rule chat_loop_stop)
  then have "h' = h" "w' = w" using "0.prems"(2) by simp_all
  then show ?case using \<open>\<not> iteration < max_iterations\<close> by simp
next
  case (Suc n)
  then have lt: "iteration < max_iterations" by simp
  obtain r e where cr: "create ag h (ext w) = (r, e)" by (cases "create ag h (ext w)")
  define w1 where "w1 = w\<lparr>queries := queries w @ [(h, r)], ext := e\<rparr>"
  have ql: "query_llm ag h w = (r, w1)" using cr by (simp add: query_llm_eq w1_def)
  have q1: "queries w1 = queries w @ [(h, r)]" by (simp add: w1_def)
  note unfold = chat_loop.simps [of ag iteration h w]
  show ?case
  proof (cases r)
    case (Inl ex)
    then have "chat_loop ag iteration h w = (Inl ex, h, w1)" using unfold lt ql by simp
    then have "res = Inl ex" "w' = w1" using Suc.prems(2) by simp_all
    then show ?thesis using q1 by (intro exI [of _ "[(h, r)]"]) simp
  next
    case (Inr msg)
    let ?a = "AssistantMsg (content msg) (tool_calls msg)"
    show ?thesis
    proof (cases "tool_calls msg = []")
      case True
      then have "\<exists>t. chat_loop ag iteration h w = (Inr t, h @ [?a], w1)"
        using unfold lt ql Inr by (simp add: Let_def split: option.splits)
      then have e: "h' = h @ [?a]" "w' = w1" using Suc.prems(2) by auto
      have "answered ag (h, Inr msg) (h @ [?a])" using True by (simp add: answered_def)
      then show ?thesis using q1 e Inr by (intro exI [of _ "[(h, r)]"]) simp
    next
      case False
      obtain r2 h2 w2 where rt: "run_tool_calls ag (tool_calls msg) (h @ [?a]) w1 = (r2, h2, w2)"
        by (cases "run_tool_calls ag (tool_calls msg) (h @ [?a]) w1") auto
      have q2: "queries w2 = queries w1" and an: "r2 = Inr () \<longrightarrow> answered ag (h, Inr msg) h2"
        using run_tool_calls_answered [OF rt] by simp_all
      show ?thesis
      proof (cases r2)
        case (Inl ex)
        then have "chat_loop ag iteration h w = (Inl ex, h2, w2)"
          using unfold lt ql \<open>r = Inr msg\<close> False rt by (simp add: Let_def)
        then have "res = Inl ex" "w' = w2" using Suc.prems(2) by simp_all
        then show ?thesis using q1 q2 by (intro exI [of _ "[(h, r)]"]) simp
      next
        case (Inr u)
        then have "chat_loop ag iteration h w = chat_loop ag (iteration + 1) h2 w2"
          using unfold lt ql \<open>r = Inr msg\<close> False rt by (simp add: Let_def)
        then have rec: "chat_loop ag (iteration + 1) h2 w2 = (res, h', w')"
          using Suc.prems(2) by simp
        have "max_iterations - (iteration + 1) = n" using Suc.prems(1) by simp
        from Suc.IH [OF this rec] obtain qs where
          qs: "queries w' = queries w2 @ qs" "chained ag qs" "qs \<noteq> [] \<longrightarrow> fst (hd qs) = h2"
            "qs = [] \<longrightarrow> h' = h2"
            "\<forall>answer. res = Inr answer \<longrightarrow> qs \<noteq> [] \<longrightarrow> answered ag (last qs) h'"
          by blast
        have a2: "answered ag (h, r) h2" using an Inr \<open>r = Inr msg\<close> by simp
        have c: "chained ag ((h, r) # qs)"
          using qs(2,3) a2 by (intro chained_Cons) auto
        have l: "\<forall>answer. res = Inr answer \<longrightarrow> answered ag (last ((h, r) # qs)) h'"
          using qs(4,5) a2 by auto
        show ?thesis
          using qs(1) q1 q2 c l by (intro exI [of _ "(h, r) # qs"]) simp
      qed
    qed
  qed
qed

lemma chat_loop_budget:
  assumes srv: "raises_exceptions_only ag"
    and eng: "\<forall>h e. \<exists>msg e'. create ag h e = (Inr msg, e') \<and> tool_calls msg \<noteq> []
      \<and> (\<forall>tc \<in> set (tool_calls msg). \<exists>v. json_loads ag (tc_arguments tc) = Inr v)"
    and "max_iterations - iteration = n"
  shows "\<exists>h' w'. chat_loop ag iteration h w = (Inr retry_message, h', w')
      \<and> length (queries w') = length (queries w) + n"
  using assms(3)
proof (induction n arbitrary: iteration h w)
  case 0
  then have "\<not> iteration < max_iterations" by simp
  then show ?case by (simp add: chat_loop_stop)
next
  case (Suc n)
  then have lt: "iteration < max_iterations" by simp
  obtain msg e where cr: "create ag h (ext w) = (Inr msg, e)" and tc: "tool_calls msg \<noteq> []"
    and ps: "\<forall>tc \<in> set (tool_calls msg). \<exists>v. json_loads ag (tc_arguments tc) = Inr v"
    using eng by blast
  define w1 where "w1 = w\<lparr>queries := queries w @ [(h, Inr msg)], ext := e\<rparr>"
  have ql: "query_llm ag h w = (Inr msg, w1)" using cr by (simp add: query_llm_eq w1_def)
  let ?a = "AssistantMsg (content msg) (tool_calls msg)"
  obtain h2 w2 where rt: "run_tool_calls ag (tool_calls msg) (h @ [?a]) w1 = (Inr (), h2, w2)"
    using run_tool_calls_succeeds [OF srv ps] by blast
  have q2: "queries w2 = queries w1" using run_tool_calls_answered [OF rt] by simp
  have step: "chat_loop ag iteration h w = chat_loop ag (iteration + 1) h2 w2"
    using chat_loop.simps [of ag iteration h w] lt ql tc rt by (simp add: Let_def)
  have "max_iterations - (iteration + 1) = n" using Suc.prems by simp
  from Suc.IH [OF this, of h2 w2] obtain h' w' where
    "chat_loop ag (iteration + 1) h2 w2 = (Inr retry_message, h', w')"
    "length (queries w') = length (queries w2) + n"
    by blast
  then show ?case using step q2 by (simp add: w1_def)
qed

lemmas run_unfold = chat_def max_iterations_def query_llm_def stub_agent_def
  tool_then_answer_def two_calls_def geocode_call_def stub_loads_def stub_dumps_def world0_def
  call_tool_def try_except_def call_geocode_def with_arg_def getitem_def dq_def
  address_json_def

lemma two_step_run:
  "chat (stub_agent tool_then_answer) ''Where is it?'' [] world0 =
     (Inr ''No address was given.'',
      [UserMsg ''Where is it?'',
       AssistantMsg None [geocode_call ''{}''],
       ToolMsg ''call_1'' ''geocode'' (''{'' @ dq ''error'' @ '': '' @ dq (quoted ''address'') @ ''}''),
       AssistantMsg (Some ''No address was given.'') []],
      world0\<lparr>queries :=
        [([UserMsg ''Where is it?''], Inr (tool_then_answer [])),
         ([UserMsg ''Where is it?'', AssistantMsg None [geocode_call ''{}''],
           ToolMsg ''call_1'' ''geocode''
             (''{'' @ dq ''error'' @ '': '' @ dq (quoted ''address'') @ ''}'')],
          Inr (tool_then_answer [ToolMsg [] [] []]))]\<rparr>)"
  by (simp add: run_unfold chat_loop.simps quoted_def)

lemma stub_agent_servers: "raises_exceptions_only (stub_agent engine)"
  by (simp add: raises_exceptions_only_def server_method_def stub_agent_def)

subsection \<open>The iteration ceiling\<close>

text \<open>
  Claim C1, amended. If the reasoning engine answers every request with a message that
  has at least one tool call, the argument text of each of these calls is accepted by
  the JSON parser, and the server methods raise nothing but instances of \<open>Exception\<close>,
  then \<open>chat\<close> returns the fixed retry message after exactly five requests to the engine.
  (An argument text that the parser rejects ends \<open>chat\<close> with the parser's exception, and
  what a server raises that is not an \<open>Exception\<close> passes the dispatcher and ends \<open>chat\<close>
  too.)
\<close>

theorem chat_budget:
  assumes "raises_exceptions_only ag"
    and "\<forall>h e. \<exists>msg e'. create ag h e = (Inr msg, e') \<and> tool_calls msg \<noteq> []
      \<and> (\<forall>tc \<in> set (tool_calls msg). \<exists>v. json_loads ag (tc_arguments tc) = Inr v)"
  shows "\<exists>h' w'. chat ag user_message conversation_history w = (Inr retry_message, h', w')
      \<and> length (queries w') = length (queries w) + 5"
proof -
  have "max_iterations - 0 = 5" by (simp add: max_iterations_def)
  from chat_loop_budget [OF assms this] show ?thesis by (simp add: chat_def)
qed

text \<open>An engine that asks for \<open>geocode\<close> with the arguments \<open>{}\<close> on every request.\<close>

theorem chat_budget_witness:
  "\<exists>h' w'. chat (stub_agent always_tool) ''Where is AUB?'' [] world0 = (Inr retry_message, h', w')
      \<and> length (queries w') = length (queries world0) + 5"
proof -
  have "\<forall>h e. \<exists>msg e'. create (stub_agent always_tool) h e = (Inr msg, e') \<and> tool_calls msg \<noteq> []
      \<and> (\<forall>tc \<in> set (tool_calls msg).
            \<exists>v. json_loads (stub_agent always_tool) (tc_arguments tc) = Inr v)"
    by (simp add: stub_agent_def always_tool_def geocode_call_def stub_loads_def)
  with stub_agent_servers show ?thesis by (rule chat_budget)
qed

text \<open>
  Claim C1 as stated fails. The first engine returns a tool call on every request, with
  the argument text \<open>{\<close>: \<open>chat\<close> ends after one request with the exception of \<open>json.loads\<close>,
  and returns no message. The second returns a call with good arguments on every request,
  and the server method is cancelled: \<open>chat\<close> ends after one request with the
  \<open>CancelledError\<close>.
\<close>

theorem chat_budget_counterexample:
  "fst (chat (stub_agent broken_arguments) ''Where is AUB?'' [] world0)
     = Inl (ValueError
         ''Expecting property name enclosed in double quotes: line 1 column 2 (char 1)'')
   \<and> length (queries (snd (snd (chat (stub_agent broken_arguments) ''Where is AUB?'' [] world0))))
     = 1
   \<and> fst (chat cancelled_agent ''Where is AUB?'' [] world0) = Inl (BaseError [])
   \<and> length (queries (snd (snd (chat cancelled_agent ''Where is AUB?'' [] world0)))) = 1"
  by (simp add: chat_def chat_loop.simps max_iterations_def query_llm_def stub_agent_def
      broken_arguments_def geocode_call_def stub_loads_def world0_def cancelled_agent_def
      address_call_def address_json_def dq_def call_tool_def try_except_def call_geocode_def
      with_arg_def getitem_def invoke_def)

subsection \<open>An immediate answer\<close>

text \<open>
  Claim C8. If the engine answers the first request with a text that is not empty and
  with no tool call, \<open>chat\<close> returns that very text; the engine has been asked exactly once
  (one entry is added to the log of requests), and the history has the user entry and the
  assistant entry appended.
\<close>

theorem immediate_answer:
  assumes "create ag (conversation_history @ [UserMsg user_message]) (ext w) = (Inr msg, e)"
    and "tool_calls msg = []" and "content msg = Some text" and "text \<noteq> []"
  shows "chat ag user_message conversation_history w =
     (Inr text,
      conversation_history @ [UserMsg user_message, AssistantMsg (Some text) []],
      w\<lparr>queries := queries w @ [(conversation_history @ [UserMsg user_message], Inr msg)],
        ext := e\<rparr>)"
  using assms
  by (simp add: chat_def chat_loop.simps [of ag 0] max_iterations_def query_llm_def)

text \<open>An engine that answers at once.\<close>

theorem immediate_answer_witness:
  "chat (stub_agent plain_answer) ''What is Beirut?'' [] world0 =
     (Inr ''Beirut is the capital of Lebanon.'',
      [UserMsg ''What is Beirut?'', AssistantMsg (Some ''Beirut is the capital of Lebanon.'') []],
      world0\<lparr>queries := [([UserMsg ''What is Beirut?''], Inr (plain_answer []))]\<rparr>)"
proof -
  have c: "create (stub_agent plain_answer) ([] @ [UserMsg ''What is Beirut?'']) (ext world0)
      = (Inr (plain_answer []), ())"
    by (simp add: stub_agent_def plain_answer_def)
  have t: "tool_calls (plain_answer []) = []"
    "content (plain_answer []) = Some ''Beirut is the capital of Lebanon.''"
    "''Beirut is the capital of Lebanon.'' \<noteq> []"
    by (simp_all add: plain_answer_def)
  show ?thesis using immediate_answer [OF c t] by (simp add: world0_def)
qed

subsection \<open>Tool results follow their requests\<close>

text \<open>
  Claim C5, amended. Within one run of \<open>chat\<close>, whatever its outcome: the history sent with
  a request to the engine is the history of the request before it, then the assistant
  entry with the tool calls that request returned, then exactly one tool result for each
  of these calls, under the call's identifier, holding what the dispatcher returned for
  the call, and in the order of the calls; the first request carries the given history
  and the user entry; and when \<open>chat\<close> returns a message, the final history answers the
  last request in the same way. (When an exception ends the run, the calls of the last
  request from the failing one on get no result, and the history keeps them unanswered
  for the next run.)
\<close>

theorem results_follow_requests:
  assumes "chat ag user_message conversation_history w = (res, h', w')"
  shows "\<exists>qs. queries w' = queries w @ qs \<and> chained ag qs \<and> qs \<noteq> []
      \<and> fst (hd qs) = conversation_history @ [UserMsg user_message]
      \<and> (\<forall>answer. res = Inr answer \<longrightarrow> answered ag (last qs) h')"
proof -
  have "chat_loop ag 0 (conversation_history @ [UserMsg user_message]) w = (res, h', w')"
    using assms by (simp add: chat_def)
  from chat_loop_trace [OF refl this] obtain qs where
    "queries w' = queries w @ qs" "chained ag qs"
    "qs \<noteq> [] \<longrightarrow> fst (hd qs) = conversation_history @ [UserMsg user_message]"
    "0 < max_iterations \<longrightarrow> qs \<noteq> []"
    "\<forall>answer. res = Inr answer \<longrightarrow> qs \<noteq> [] \<longrightarrow> answered ag (last qs) h'"
    by (elim exE conjE)
  then show ?thesis by (intro exI [of _ qs]) (simp add: max_iterations_def)
qed

text \<open>A run of two requests: a call of \<open>geocode\<close> without its address, then the answer.\<close>

theorem results_follow_requests_witness:
  "chained (stub_agent tool_then_answer)
     (queries (snd (snd (chat (stub_agent tool_then_answer) ''Where is it?'' [] world0))))
   \<and> length (queries (snd (snd (chat (stub_agent tool_then_answer) ''Where is it?'' [] world0))))
       = 2
   \<and> answered (stub_agent tool_then_answer)
       (last (queries (snd (snd (chat (stub_agent tool_then_answer) ''Where is it?'' [] world0)))))
       (fst (snd (chat (stub_agent tool_then_answer) ''Where is it?'' [] world0)))"
proof -
  let ?ag = "stub_agent tool_then_answer"
  let ?run = "chat ?ag ''Where is it?'' [] world0"
  have "?run = (fst ?run, fst (snd ?run), snd (snd ?run))" by simp
  from results_follow_requests [OF this] obtain qs where
    qs: "queries (snd (snd ?run)) = queries world0 @ qs" "chained ?ag qs"
      "\<forall>answer. fst ?run = Inr answer \<longrightarrow> answered ?ag (last qs) (fst (snd ?run))"
    by (elim exE conjE)
  have "queries world0 = []" by (simp add: world0_def)
  then have e: "queries (snd (snd ?run)) = qs" using qs(1) by simp
  have "fst ?run = Inr ''No address was given.''" by (simp add: two_step_run)
  then have a: "answered ?ag (last qs) (fst (snd ?run))" using qs(3) by blast
  have "length (queries (snd (snd ?run))) = 2" by (simp add: two_step_run)
  then show ?thesis using e qs(2) a by simp
qed

text \<open>
  Claim C5 as stated fails. The engine returns two calls, \<open>call_a\<close> with the argument text
  \<open>{}\<close> and \<open>call_b\<close> with \<open>{\<close>: the run ends with the exception of \<open>json.loads\<close>, its history
  has a result for \<open>call_a\<close> and none for \<open>call_b\<close>, and the first request of the next run
  is sent with that history.
\<close>

theorem results_follow_requests_counterexample:
  "chat (stub_agent two_calls) ''Where is AUB?'' [] world0 =
     (Inl (ValueError
        ''Expecting property name enclosed in double quotes: line 1 column 2 (char 1)''),
      unanswered_history,
      world0\<lparr>queries := [([UserMsg ''Where is AUB?''], Inr (two_calls []))]\<rparr>)
   \<and> map tc_id (tool_calls (two_calls [])) = [''call_a'', ''call_b'']
   \<and> filter is_tool_msg unanswered_history =
       [ToolMsg ''call_a'' ''geocode''
          (''{'' @ dq ''error'' @ '': '' @ dq (quoted ''address'') @ ''}'')]
   \<and> fst (hd (queries (snd (snd
        (chat (stub_agent two_calls) ''And now?'' unanswered_history world0)))))
       = unanswered_history @ [UserMsg ''And now?'']"
  by (simp add: run_unfold unanswered_history_def chat_loop.simps quoted_def)

end
